theory Spec2Isabelle
  imports Main "HOL-Library.Word"
begin

section \<open>Data model\<close>

text \<open>
  Pointers are optional addresses: \<open>None\<close> is \<open>nullptr\<close>. Objects that are reached
  through several pointers (the \<open>Session\<close> objects, which the session vector and the
  management retry queue both point to) live in an explicit store.
\<close>

type_synonym addr = nat

datatype SessionState = kConnectInProgress | kConnected | kDisconnectInProgress | kDisconnected

datatype Role = kServer | kClient

datatype SessionMgmtPktType = kConnectReq | kConnectResp | kDisconnectReq | kDisconnectResp

text \<open>
  Modelled from the spec: the enum \<open>SessionMgmtErrType\<close> is declared outside \<open>src/\<close>.
  The spec names \<open>kNoError\<close> and \<open>kTooManySessions\<close>; \<open>kErrOther n\<close> stands for every
  other value the field can carry. Which values \<open>session_mgmt_err_type_is_valid\<close>
  accepts is not in \<open>src/\<close> either, so that predicate is a parameter of the handler.
\<close>

datatype SessionMgmtErrType = kNoError | kTooManySessions | kErrOther nat

text \<open>
  Modelled from the spec: the enum \<open>SessionMgmtEventType\<close> is declared outside \<open>src/\<close>;
  the spec names the events \<open>connected\<close>, \<open>connectFailed\<close> and \<open>disconnected\<close>.
  The enums are scoped in the source; where two of them share a constructor name the
  model writes the qualified name, as the source does.
\<close>

datatype SessionMgmtEventType = kConnected | kConnectFailed | kDisconnected

text \<open>
  Modelled from the spec (section 3): a \<open>SessionEndpoint\<close> is hostname, RpcId, session
  number and a transport-addressing blob; two endpoints compare equal iff all four match,
  which is equality of the record.
\<close>

record SessionEndpoint =
  hostname :: string
  ep_rpc_id :: "8 word"
  session_num :: "16 word"
  routing_info :: "8 word list"

record SessionMgmtPkt =
  pkt_type :: SessionMgmtPktType
  err_type :: SessionMgmtErrType
  pkt_client :: SessionEndpoint
  pkt_server :: SessionEndpoint

text \<open>
  A \<open>MsgBuffer\<close>, with the members the code under \<open>src/\<close> reads: \<open>buf\<close>,
  \<open>buffer.buf\<close>, \<open>num_pkts\<close>, \<open>pkts_queued\<close>, and the request type that
  \<open>get_req_type()\<close> returns.
\<close>

record MsgBuffer =
  buf :: "addr option"
  buffer_buf :: "addr option"
  num_pkts :: nat
  pkts_queued :: nat
  req_type :: "8 word"

text \<open>
  An \<open>SSlot\<close>. \<open>tx_msgbuf\<close> is a pointer to a \<open>MsgBuffer\<close>: \<open>None\<close> is the null
  pointer, \<open>Some m\<close> the buffer it points to. \<open>cont_func\<close> and \<open>tag\<close> are the members of
  \<open>clt_save_info\<close>; a function pointer is the address of the function.
\<close>

record SSlot =
  sslot_session :: "addr option"
  rx_msgbuf :: MsgBuffer
  tx_msgbuf :: "MsgBuffer option"
  pre_resp_msgbuf :: MsgBuffer
  cont_func :: addr
  tag :: nat

text \<open>
  A \<open>Session\<close>. The array \<open>sslot_arr\<close> of \<open>kSessionReqWindow\<close> slots is a list; the
  constant is its length, and a loop over \<open>0 .. kSessionReqWindow - 1\<close> is a recursion
  over the list. \<open>sm_callbacks_disabled\<close> is the member of \<open>client_info\<close>.
\<close>

record Session =
  role :: Role
  state :: SessionState
  client :: SessionEndpoint
  server :: SessionEndpoint
  sslot_arr :: "SSlot list"
  local_session_num :: "16 word"
  sm_callbacks_disabled :: bool

text \<open>
  Modelled from the spec: \<open>ReqFunc\<close> is declared outside \<open>src/\<close>. An entry of the
  request-handler table is a handler function and a long-running flag (section 6); an
  entry without a handler holds the null function pointer.
\<close>

record ReqFunc =
  req_func :: "addr option"
  run_in_background :: bool

text \<open>
  The \<open>NexusHook\<close> of an Rpc: its id and, for each background thread, the pointer to
  that thread's work-item list.
\<close>

record NexusHook =
  hook_rpc_id :: "8 word"
  bg_req_list_arr :: "addr option list"

text \<open>
  The members of the \<open>Nexus\<close> that the Rpc reads (\<open>udp_config\<close> is kept as an
  opaque value), the ids of the registered hooks, and the pointers to the background
  threads' lists that registration hands to a hook.
\<close>

record Nexus =
  nx_hostname :: string
  udp_config :: nat
  num_bg_threads :: nat
  nx_req_func_arr :: "ReqFunc list"
  reg_hooks :: "8 word list"
  nx_bg_req_lists :: "addr option list"

text \<open>
  The \<open>Rpc\<close> object together with the \<open>Session\<close> objects its pointers refer to
  (\<open>heap\<close>). \<open>nexus\<close> is the object the Rpc's \<open>nexus\<close> pointer refers to.
  \<open>sm_handler\<close> is the member \<open>session_mgmt_handler\<close>, a function pointer.
  \<open>transport\<close> and \<open>huge_alloc\<close> are owning pointers: \<open>Some\<close> while the object is
  allocated (the transport with its id and port, the allocator with its NUMA node).
\<close>

record Rpc =
  nexus :: Nexus
  app_context :: "addr option"
  rpc_id :: "8 word"
  sm_handler :: addr
  phy_port :: "8 word"
  numa_node :: nat
  creator_os_tid :: nat
  multi_threaded :: bool
  in_event_loop :: bool
  req_func_arr :: "ReqFunc list"
  nexus_hook :: NexusHook
  transport :: "(8 word \<times> 8 word) option"
  huge_alloc :: "nat option"
  session_vec :: "addr option list"
  mgmt_retry_queue :: "addr option list"
  heap :: "addr \<rightharpoonup> Session"

text \<open>
  Calls that leave the Rpc are recorded, in order, with their arguments: the response sent
  by \<open>send_resp_mut\<close>, a buffer handed to \<open>free_msg_buffer\<close>, the user's
  session-management callback, which is recorded with the Rpc as it is at the moment of
  the call, and the allocation, initialisation and release of the transport, the
  huge-page allocator and the hook registration.
\<close>

datatype event =
    EvSendRespMut SessionMgmtPkt SessionMgmtErrType nat
  | EvFreeMsgBuffer MsgBuffer
  | EvSessionMgmtHandler "16 word" SessionMgmtEventType SessionMgmtErrType "addr option" Rpc
  | EvNewTransport "8 word" "8 word"
  | EvNewHugeAlloc nat nat
  | EvInitHugepageStructures
  | EvRegisterHook "8 word"
  | EvDeleteHugeAlloc
  | EvDeleteTransport
  | EvUnregisterHook "8 word"

record world = Rpc +
  trace :: "event list"

text \<open>
  How a call ends when it does not return: a failed \<open>assert\<close> (with its line in the
  source file), the \<open>std::out_of_range\<close> of \<open>at\<close>, a member read through a null
  pointer, a pointer that does not point to an object, a thrown exception with its
  message, or \<open>exit\<close> with its status and the diagnostic printed before it. Each
  comes with the state at that point. The model is the build in which \<open>assert\<close> is
  checked.
\<close>

datatype error =
    AssertFail nat
  | OutOfRange
  | NullDeref
  | InvalidDeref
  | RuntimeError string
  | InvalidArgument string
  | Exit int string

type_synonym 'w result = "(error \<times> 'w) + 'w"

section \<open>Helpers of the Rpc that are declared outside the source files\<close>

text \<open>
  Modelled from the spec: \<open>in_creator\<close> is not in \<open>src/\<close>. The creator thread is the
  thread that constructed the Rpc (section 4.5); the constructor stores its id in
  \<open>creator_os_tid\<close>. \<open>tid\<close> is the id of the calling thread.
\<close>

definition in_creator :: "nat \<Rightarrow> world \<Rightarrow> bool" where
  "in_creator tid w = (tid = creator_os_tid w)"

text \<open>
  Modelled from the spec: \<open>Session::is_client\<close> and \<open>Session::is_server\<close> are not in
  \<open>src/\<close>; a session's role is client or server (section 3).
\<close>

definition is_client :: "Session \<Rightarrow> bool" where
  "is_client s = (role s = kClient)"

definition is_server :: "Session \<Rightarrow> bool" where
  "is_server s = (role s = kServer)"

text \<open>
  Modelled from the spec: \<open>mgmt_retryq_contains_st\<close> and \<open>mgmt_retryq_remove_st\<close> are
  not in \<open>src/\<close>. The management retry queue holds session pointers; the spec has the
  handler test presence in the queue and remove the session from it (section 4.5.4).
\<close>

definition mgmt_retryq_contains_st :: "world \<Rightarrow> addr option \<Rightarrow> bool" where
  "mgmt_retryq_contains_st w session = (session \<in> set (mgmt_retry_queue w))"

definition mgmt_retryq_remove_st :: "addr option \<Rightarrow> world \<Rightarrow> world" where
  "mgmt_retryq_remove_st session w =
     w\<lparr>mgmt_retry_queue := removeAll session (mgmt_retry_queue w)\<rparr>"

text \<open>
  Modelled from the spec: \<open>SessionMgmtPkt::send_resp_mut\<close>, \<open>free_msg_buffer\<close> and
  the user's \<open>session_mgmt_handler\<close> are not in \<open>src/\<close>. The spec has them send the
  response to a request (section 4.5.3), release a buffer (section 4.5) and tell the user
  of a session event (section 4.5.4). Each call is recorded, in order, with its
  arguments. The callback is recorded with the Rpc it is called in (\<open>Rpc.truncate w\<close>
  is the state \<open>w\<close> without its record of calls); it is taken not to re-enter the Rpc.
\<close>

definition send_resp_mut :: "SessionMgmtPkt \<Rightarrow> SessionMgmtErrType \<Rightarrow> nat \<Rightarrow> world \<Rightarrow> world" where
  "send_resp_mut p e cfg w = w\<lparr>trace := trace w @ [EvSendRespMut p e cfg]\<rparr>"

definition free_msg_buffer :: "MsgBuffer \<Rightarrow> world \<Rightarrow> world" where
  "free_msg_buffer m w = w\<lparr>trace := trace w @ [EvFreeMsgBuffer m]\<rparr>"

definition session_mgmt_handler ::
  "16 word \<Rightarrow> SessionMgmtEventType \<Rightarrow> SessionMgmtErrType \<Rightarrow> addr option \<Rightarrow> world \<Rightarrow> world" where
  "session_mgmt_handler n ev e ctx w =
     w\<lparr>trace := trace w @ [EvSessionMgmtHandler n ev e ctx (Rpc.truncate w)]\<rparr>"

section \<open>\<open>Rpc::bury_session_st\<close> (rpc.cc)\<close>

text \<open>The loop that frees the preallocated response buffer of every slot, in slot order.\<close>

primrec free_session_resources :: "SSlot list \<Rightarrow> world \<Rightarrow> world" where
  "free_session_resources [] w = w"
| "free_session_resources (sslot # rest) w =
     free_session_resources rest (free_msg_buffer (pre_resp_msgbuf sslot) w)"

definition bury_session_st :: "nat \<Rightarrow> addr option \<Rightarrow> world \<Rightarrow> world result" where
  "bury_session_st tid session w =
     (if \<not> in_creator tid w then Inl (AssertFail 121, w)
      else case session of
        None \<Rightarrow> Inl (AssertFail 122, w)
      | Some a \<Rightarrow>
          (case heap w a of
             None \<Rightarrow> Inl (InvalidDeref, w)
           | Some s \<Rightarrow>
               if is_client s \<and> mgmt_retryq_contains_st w session then Inl (AssertFail 126, w)
               else
                 let w1 = free_session_resources (sslot_arr s) w;
                     i = unat (local_session_num s)
                 in if \<not> i < length (session_vec w1) then Inl (OutOfRange, w1)
                    else Inr (w1\<lparr>session_vec := (session_vec w1)[i := None],
                                  heap := (heap w1)(a := None)\<rparr>)))"

section \<open>The disconnect handlers (rpc\_disconnect\_handlers.cc)\<close>

text \<open>
  The asserts of the loop over the slots of a session: the line of the first assert that
  fails, or \<open>None\<close> when every slot passes.
\<close>

primrec check_sslots_sent :: "SSlot list \<Rightarrow> nat option" where
  "check_sslots_sent [] = None"
| "check_sslots_sent (sslot # rest) =
     (if \<not> (buf (rx_msgbuf sslot) = None \<and> buffer_buf (rx_msgbuf sslot) = None) then Some 53
      else case tx_msgbuf sslot of
        None \<Rightarrow> check_sslots_sent rest
      | Some m \<Rightarrow> if pkts_queued m \<noteq> num_pkts m then Some 57 else check_sslots_sent rest)"

definition handle_disconnect_req_st :: "nat \<Rightarrow> SessionMgmtPkt option \<Rightarrow> world \<Rightarrow> world result" where
  "handle_disconnect_req_st tid sm_pkt w =
     (if \<not> in_creator tid w then Inl (AssertFail 18, w)
      else case sm_pkt of
        None \<Rightarrow> Inl (AssertFail 19, w)
      | Some p \<Rightarrow>
          if pkt_type p \<noteq> kDisconnectReq then Inl (AssertFail 20, w)
          else if ep_rpc_id (pkt_server p) \<noteq> rpc_id w then Inl (AssertFail 23, w)
          else if hostname (pkt_server p) \<noteq> nx_hostname (nexus w) then Inl (AssertFail 24, w)
          else
            let n = unat (session_num (pkt_server p))
            in if \<not> n < length (session_vec w) then Inl (AssertFail 32, w)
               else
                 (case session_vec w ! n of
                    None \<Rightarrow> Inr (send_resp_mut p kNoError (udp_config (nexus w)) w)
                  | Some a \<Rightarrow>
                      (case heap w a of
                         None \<Rightarrow> Inl (InvalidDeref, w)
                       | Some s \<Rightarrow>
                           if \<not> is_server s then Inl (AssertFail 46, w)
                           else if server s \<noteq> pkt_server p then Inl (AssertFail 47, w)
                           else if client s \<noteq> pkt_client p then Inl (AssertFail 48, w)
                           else
                             (case check_sslots_sent (sslot_arr s) of
                                Some l \<Rightarrow> Inl (AssertFail l, w)
                              | None \<Rightarrow>
                                  bury_session_st tid (Some a)
                                    (send_resp_mut p kNoError (udp_config (nexus w)) w)))))"

definition handle_disconnect_resp_st ::
  "(SessionMgmtErrType \<Rightarrow> bool) \<Rightarrow> nat \<Rightarrow> SessionMgmtPkt option \<Rightarrow> world \<Rightarrow> world result" where
  "handle_disconnect_resp_st session_mgmt_err_type_is_valid tid sm_pkt w =
     (if \<not> in_creator tid w then Inl (AssertFail 71, w)
      else case sm_pkt of
        None \<Rightarrow> Inl (AssertFail 72, w)
      | Some p \<Rightarrow>
          if pkt_type p \<noteq> kDisconnectResp then Inl (AssertFail 73, w)
          else if \<not> session_mgmt_err_type_is_valid (err_type p) then Inl (AssertFail 74, w)
          else
            let n = unat (session_num (pkt_client p))
            in if \<not> n < length (session_vec w) then Inl (AssertFail 85, w)
               else
                 (case session_vec w ! n of
                    None \<Rightarrow>
                      if mgmt_retryq_contains_st w None then Inl (AssertFail 92, w) else Inr w
                  | Some a \<Rightarrow>
                      (case heap w a of
                         None \<Rightarrow> Inl (InvalidDeref, w)
                       | Some s \<Rightarrow>
                           if state s \<noteq> kDisconnectInProgress then Inl (AssertFail 103, w)
                           else if \<not> mgmt_retryq_contains_st w (Some a)
                             then Inl (AssertFail 104, w)
                           else
                             let w1 = mgmt_retryq_remove_st (Some a) w
                             in if server s \<noteq> pkt_server p then Inl (AssertFail 109, w1)
                                else if client s \<noteq> pkt_client p then Inl (AssertFail 110, w1)
                                else if err_type p \<noteq> kNoError then Inl (AssertFail 113, w1)
                                else
                                  let w2 = w1\<lparr>heap := (heap w1)
                                             (a \<mapsto> s\<lparr>state := SessionState.kDisconnected\<rparr>)\<rparr>;
                                      w3 = (if \<not> sm_callbacks_disabled s
                                            then session_mgmt_handler (local_session_num s)
                                                   SessionMgmtEventType.kDisconnected kNoError
                                                   (app_context w2) w2
                                            else w2)
                                  in bury_session_st tid (Some a) w3)))"

text \<open>The state in which a call ends, whether it returned or not.\<close>

definition outcome_world :: "'w result \<Rightarrow> 'w" where
  "outcome_world r = (case r of Inl (e, w) \<Rightarrow> w | Inr w \<Rightarrow> w)"

text \<open>
  Replaying a session-management request: the same packet contents are handled \<open>k\<close>
  times in a row, each time in the state the previous handling left.
\<close>

primrec replay_disconnect_req :: "nat \<Rightarrow> nat \<Rightarrow> SessionMgmtPkt \<Rightarrow> world \<Rightarrow> world result" where
  "replay_disconnect_req 0 tid p w = Inr w"
| "replay_disconnect_req (Suc k) tid p w =
     (case handle_disconnect_req_st tid (Some p) w of
        Inl e \<Rightarrow> Inl e
      | Inr w' \<Rightarrow> replay_disconnect_req k tid p w')"

section \<open>Construction and destruction of an Rpc (rpc.cc)\<close>

text \<open>\<open>std::to_string\<close>, and \<open>%u\<close> in a format string, on an unsigned number: its decimal digits.\<close>

function to_string :: "nat \<Rightarrow> string" where
  "to_string n =
     (if n < 10 then [char_of (48 + n)]
      else to_string (n div 10) @ [char_of (48 + n mod 10)])"
  by pat_completeness auto
termination
  by (relation "measure (\<lambda>n. n)") auto

declare to_string.simps [simp del]

text \<open>
  Modelled from the spec: \<open>kInvalidRpcId\<close> is declared outside \<open>src/\<close>; the value
  \<open>0xFF\<close> is reserved as the invalid RpcId (section 3).
\<close>

definition kInvalidRpcId :: "8 word" where
  "kInvalidRpcId = 0xFF"

text \<open>
  Modelled from the spec: \<open>Nexus::rpc_id_exists\<close>, \<open>Nexus::register_hook\<close> and
  \<open>Nexus::unregister_hook\<close> are not in \<open>src/\<close>. The Nexus keeps a mapping from RpcId
  to hook; registering adds the hook's id and gives the hook a reference to every
  background thread's list, unregistering removes the id (sections 3, 4.3 and 4.4).
\<close>

definition rpc_id_exists :: "Nexus \<Rightarrow> 8 word \<Rightarrow> bool" where
  "rpc_id_exists nx i = (i \<in> set (reg_hooks nx))"

definition register_hook :: "Nexus \<Rightarrow> NexusHook \<Rightarrow> Nexus \<times> NexusHook" where
  "register_hook nx hook =
     (nx\<lparr>reg_hooks := reg_hooks nx @ [hook_rpc_id hook]\<rparr>,
      hook\<lparr>bg_req_list_arr := nx_bg_req_lists nx\<rparr>)"

definition unregister_hook :: "Nexus \<Rightarrow> NexusHook \<Rightarrow> Nexus" where
  "unregister_hook nx hook = nx\<lparr>reg_hooks := removeAll (hook_rpc_id hook) (reg_hooks nx)\<rparr>"

text \<open>
  The transport \<open>TTr\<close> is a template parameter and \<open>HugeAlloc\<close> is outside \<open>src/\<close>.
  What the constructor needs of them is how each of the three calls ends: \<open>None\<close> when
  it returns, the exception when it throws (for \<open>init_hugepage_structures\<close> the message
  of the \<open>std::runtime_error\<close> that the constructor catches).
\<close>

record TTr =
  ttr_ctor :: "8 word \<Rightarrow> 8 word \<Rightarrow> error option"
  huge_alloc_ctor :: "nat \<Rightarrow> nat \<Rightarrow> error option"
  init_hugepage_structures :: "8 word \<Rightarrow> 8 word \<Rightarrow> string option"

text \<open>
  The constructor. \<open>kMaxPhyPorts\<close>, \<open>kMaxNumaNodes\<close> and \<open>kInitialHugeAllocSize\<close>
  are constants declared outside \<open>src/\<close> and are parameters; \<open>uid\<close> is what
  \<open>getuid()\<close> returns and \<open>tid\<close> what \<open>gettid()\<close> returns. \<open>nexus\<close> is the pointer
  argument: \<open>None\<close> is the null pointer, \<open>Some nx\<close> a pointer to the Nexus \<open>nx\<close>.
  The member initializers run before the body and read \<open>nexus->num_bg_threads\<close> and
  \<open>nexus->req_func_arr\<close>, so the first thing the constructor does with \<open>nexus\<close> is
  to dereference it. A constructor that does not return gives the exception and the
  calls it made until then.
\<close>

definition Rpc_ctor ::
  "nat \<Rightarrow> nat \<Rightarrow> nat \<Rightarrow> TTr \<Rightarrow> nat \<Rightarrow> nat \<Rightarrow> Nexus option \<Rightarrow> addr option \<Rightarrow> 8 word \<Rightarrow> addr
     \<Rightarrow> 8 word \<Rightarrow> nat \<Rightarrow> (error \<times> event list) + world" where
  "Rpc_ctor kMaxPhyPorts kMaxNumaNodes kInitialHugeAllocSize ttr uid tid nexus_ptr context_ptr
       rpc_id_arg session_mgmt_handler_arg phy_port_arg numa_node_arg =
     (case nexus_ptr of
        None \<Rightarrow> Inl (NullDeref, [])
      | Some nx \<Rightarrow>
          if uid \<noteq> 0
            then Inl (RuntimeError ''eRPC Rpc: You need to be root to use eRPC'', [])
          else if nexus_ptr = None
            then Inl (InvalidArgument ''eRPC Rpc: Invalid nexus'', [])
          else if rpc_id_arg = kInvalidRpcId \<or> rpc_id_exists nx rpc_id_arg
            then Inl (InvalidArgument ''eRPC Rpc: Invalid rpc_id'', [])
          else if unat phy_port_arg \<ge> kMaxPhyPorts
            then Inl (InvalidArgument ''eRPC Rpc: Invalid physical port'', [])
          else if numa_node_arg \<ge> kMaxNumaNodes
            then Inl (InvalidArgument ''eRPC Rpc: Invalid NUMA node'', [])
          else
            (case ttr_ctor ttr rpc_id_arg phy_port_arg of
               Some e \<Rightarrow> Inl (e, [])
             | None \<Rightarrow>
                 (case huge_alloc_ctor ttr kInitialHugeAllocSize numa_node_arg of
                    Some e \<Rightarrow> Inl (e, [EvNewTransport rpc_id_arg phy_port_arg])
                  | None \<Rightarrow>
                      (case init_hugepage_structures ttr rpc_id_arg phy_port_arg of
                         Some msg \<Rightarrow>
                           Inl (RuntimeError msg,
                                [EvNewTransport rpc_id_arg phy_port_arg,
                                 EvNewHugeAlloc kInitialHugeAllocSize numa_node_arg,
                                 EvDeleteHugeAlloc])
                       | None \<Rightarrow>
                           let (nx', hook) =
                                 register_hook nx \<lparr>hook_rpc_id = rpc_id_arg, bg_req_list_arr = []\<rparr>;
                               evs = [EvNewTransport rpc_id_arg phy_port_arg,
                                      EvNewHugeAlloc kInitialHugeAllocSize numa_node_arg,
                                      EvInitHugepageStructures,
                                      EvRegisterHook rpc_id_arg]
                           in if \<not> list_all (\<lambda>i. i < length (bg_req_list_arr hook)
                                              \<and> bg_req_list_arr hook ! i \<noteq> None)
                                     [0 ..< num_bg_threads nx]
                              then Inl (AssertFail 75, evs)
                              else Inr \<lparr>nexus = nx', app_context = context_ptr,
                                        rpc_id = rpc_id_arg,
                                        sm_handler = session_mgmt_handler_arg,
                                        phy_port = phy_port_arg, numa_node = numa_node_arg,
                                        creator_os_tid = tid,
                                        multi_threaded = (num_bg_threads nx > 0),
                                        in_event_loop = False,
                                        req_func_arr = nx_req_func_arr nx,
                                        nexus_hook = hook,
                                        transport = Some (rpc_id_arg, phy_port_arg),
                                        huge_alloc = Some numa_node_arg,
                                        session_vec = [], mgmt_retry_queue = [],
                                        heap = Map.empty, trace = evs\<rparr>))))"

text \<open>
  The destructor. \<open>kDatapathChecks\<close> is a constant declared outside \<open>src/\<close> and is a
  parameter. \<open>exit(-1)\<close> ends the process: the result is the exit status with the
  diagnostic printed before it, and the state is as it was. The loop over the session
  vector has no effect.
\<close>

definition Rpc_dtor :: "bool \<Rightarrow> nat \<Rightarrow> world \<Rightarrow> world result" where
  "Rpc_dtor kDatapathChecks tid w =
     (if \<not> in_creator tid w
        then Inl (Exit (- 1)
                   (''eRPC Rpc '' @ to_string (unat (rpc_id w))
                      @ '': Error. Cannot destroy from background thread.'' @ [CHR 0x0A]), w)
      else if kDatapathChecks \<and> in_event_loop w
        then Inl (Exit (- 1)
                   (''eRPC Rpc '' @ to_string (unat (rpc_id w))
                      @ '': Error. Cannot destroy when inside event loop.'' @ [CHR 0x0A]), w)
      else
        Inr (w\<lparr>huge_alloc := None, transport := None,
               nexus := unregister_hook (nexus w) (nexus_hook w),
               trace := trace w
                 @ [EvDeleteHugeAlloc, EvDeleteTransport, EvUnregisterHook (hook_rpc_id (nexus_hook w))]\<rparr>))"

section \<open>The background thread (nexus\_bg\_thread.cc)\<close>

text \<open>
  Modelled from the spec: the enum \<open>BgWorkItemType\<close> is declared outside \<open>src/\<close>. The
  source names \<open>kReq\<close>; the other kind of work item is the continuation (section 3),
  here \<open>kResp\<close>.
\<close>

datatype BgWorkItemType = kReq | kResp

text \<open>A \<open>BgWorkItem\<close>: its members \<open>wi_type\<close>, \<open>rpc_id\<close>, \<open>rpc\<close>, \<open>context\<close>, \<open>sslot\<close>.\<close>

record BgWorkItem =
  wi_type :: BgWorkItemType
  wi_rpc_id :: "8 word"
  wi_rpc :: "addr option"
  wi_context :: "addr option"
  wi_sslot :: "addr option"

text \<open>
  Modelled from the spec: \<open>MtList\<close> is declared outside \<open>src/\<close>. It is a list with a
  size member that can be read without the lock; \<open>push\<close> appends an item and
  increments the size, \<open>locked_clear\<close> empties the list and resets the size to 0
  (section 4.2).
\<close>

record 'a MtList =
  mt_list :: "'a list"
  mt_size :: nat

definition mt_push :: "'a \<Rightarrow> 'a MtList \<Rightarrow> 'a MtList" where
  "mt_push x l = \<lparr>mt_list = mt_list l @ [x], mt_size = mt_size l + 1\<rparr>"

definition locked_clear :: "'a MtList \<Rightarrow> 'a MtList" where
  "locked_clear l = \<lparr>mt_list = [], mt_size = 0\<rparr>"

text \<open>
  The application's code that a background thread calls: a request handler
  \<open>req_func(sslot, context)\<close> or a continuation \<open>cont_func(sslot, context, tag)\<close>,
  each with the address of the function that is called.
\<close>

datatype bg_call =
    ReqFuncCall addr addr "addr option"
  | ContFuncCall addr addr "addr option" nat

text \<open>What a background thread does, in order.\<close>

datatype bg_event =
    EvLock
  | EvLockedClear
  | EvUnlock
  | EvUsleep nat
  | EvInvoke BgWorkItem bg_call
  | EvBuryRxMsgbuf addr addr
  | EvBgThreadExit

text \<open>
  What a background thread works on: the counter of the \<open>TlsRegistry\<close>, the thread's
  own thread-local tiny thread id, the thread's work-item list, and the slots that the
  work items point to.
\<close>

record bg_world =
  cur_etid :: nat
  tiny_tid :: nat
  bg_req_list :: "BgWorkItem MtList"
  sslots :: "addr \<rightharpoonup> SSlot"
  bg_trace :: "bg_event list"

text \<open>
  The members of \<open>BgThreadCtx\<close> that are values: the index the Nexus gave the thread and
  the request-handler table. Its kill switch, registry and list are shared with other
  threads; the registry and the list are in \<open>bg_world\<close>, and what the other threads do
  to the kill switch and the list is an input of the loop.
\<close>

record BgThreadCtx =
  bg_thread_index :: nat
  ctx_req_func_arr :: "ReqFunc list"

text \<open>
  Modelled from the spec: \<open>TlsRegistry::init\<close> and \<open>get_tiny_tid\<close> are not defined in
  \<open>src/\<close>. \<open>init\<close> atomically fetches and increments the counter and stores the result
  in a thread-local cell; the getter returns the cell (section 4.1).
\<close>

definition tls_registry_init :: "bg_world \<Rightarrow> bg_world" where
  "tls_registry_init w = w\<lparr>tiny_tid := cur_etid w, cur_etid := cur_etid w + 1\<rparr>"

definition get_tiny_tid :: "bg_world \<Rightarrow> nat" where
  "get_tiny_tid w = tiny_tid w"

text \<open>
  Modelled from the spec: \<open>Rpc::bury_sslot_rx_msgbuf\<close> is not in \<open>src/\<close>. It releases
  the slot's rx buffer (section 4.3), after which the slot's rx buffer is cleared (section
  4.5.3). \<open>rpc\<close> is the pointer the method is called through.
\<close>

definition bury_sslot_rx_msgbuf :: "addr option \<Rightarrow> addr \<Rightarrow> bg_world \<Rightarrow> bg_world result" where
  "bury_sslot_rx_msgbuf rpc a w =
     (case rpc of
        None \<Rightarrow> Inl (NullDeref, w)
      | Some r \<Rightarrow>
          (case sslots w a of
             None \<Rightarrow> Inl (InvalidDeref, w)
           | Some sl \<Rightarrow>
               Inr (w\<lparr>sslots := (sslots w)
                        (a \<mapsto> sl\<lparr>rx_msgbuf := (rx_msgbuf sl)\<lparr>buf := None, buffer_buf := None\<rparr>\<rparr>),
                      bg_trace := bg_trace w @ [EvBuryRxMsgbuf r a]\<rparr>)))"

text \<open>
  The body of the loop over the work items (lines 46 to 80), for one item. \<open>app\<close> is
  the application: what a call of a request handler or of a continuation does to the
  slots. \<open>debug_check_bg_rx_msgbuf\<close> is a static method of \<open>Rpc\<close> outside \<open>src/\<close>
  and is a parameter: whether its checks pass. \<open>ReqFunc::is_registered\<close> is outside
  \<open>src/\<close> too: an entry is registered when it has a handler. The debug printing is left
  out.
\<close>

definition bg_invoke ::
  "(bg_call \<Rightarrow> (addr \<rightharpoonup> SSlot) \<Rightarrow> (addr \<rightharpoonup> SSlot)) \<Rightarrow> (SSlot \<Rightarrow> BgWorkItemType \<Rightarrow> bool)
     \<Rightarrow> BgThreadCtx \<Rightarrow> BgWorkItem \<Rightarrow> bg_world \<Rightarrow> bg_world result" where
  "bg_invoke app debug_check_bg_rx_msgbuf bg_thread_ctx bg_work_item w =
     (case wi_sslot bg_work_item of
        None \<Rightarrow> Inl (NullDeref, w)
      | Some a \<Rightarrow>
          (case sslots w a of
             None \<Rightarrow> Inl (InvalidDeref, w)
           | Some sl \<Rightarrow>
               if \<not> (wi_context bg_work_item \<noteq> None \<and> wi_sslot bg_work_item \<noteq> None
                      \<and> sslot_session sl \<noteq> None)
                 then Inl (AssertFail 53, w)
               else if \<not> debug_check_bg_rx_msgbuf sl (wi_type bg_work_item)
                 then Inl (AssertFail 56, w)
               else if tx_msgbuf sl \<noteq> None then Inl (AssertFail 57, w)
               else if wi_type bg_work_item = kReq then
                 let i = unat (req_type (rx_msgbuf sl))
                 in if \<not> i < length (ctx_req_func_arr bg_thread_ctx) then Inl (OutOfRange, w)
                    else
                      (case req_func (ctx_req_func_arr bg_thread_ctx ! i) of
                         None \<Rightarrow> Inl (AssertFail 70, w)
                       | Some f \<Rightarrow>
                           let call = ReqFuncCall f a (wi_context bg_work_item);
                               w1 = w\<lparr>sslots := app call (sslots w),
                                      bg_trace := bg_trace w @ [EvInvoke bg_work_item call]\<rparr>
                           in bury_sslot_rx_msgbuf (wi_rpc bg_work_item) a w1)
               else
                 let call = ContFuncCall (cont_func sl) a (wi_context bg_work_item) (tag sl)
                 in Inr (w\<lparr>sslots := app call (sslots w),
                           bg_trace := bg_trace w @ [EvInvoke bg_work_item call]\<rparr>)))"

text \<open>The loop over the items of the list, in list order; it stops at the first failure.\<close>

fun bg_invoke_all ::
  "(bg_call \<Rightarrow> (addr \<rightharpoonup> SSlot) \<Rightarrow> (addr \<rightharpoonup> SSlot)) \<Rightarrow> (SSlot \<Rightarrow> BgWorkItemType \<Rightarrow> bool)
     \<Rightarrow> BgThreadCtx \<Rightarrow> BgWorkItem list \<Rightarrow> bg_world \<Rightarrow> bg_world result" where
  "bg_invoke_all app chk ctx [] w = Inr w"
| "bg_invoke_all app chk ctx (item # rest) w =
     (case bg_invoke app chk ctx item w of
        Inl x \<Rightarrow> Inl x
      | Inr w1 \<Rightarrow> bg_invoke_all app chk ctx rest w1)"

text \<open>One drain of the list (lines 42 to 84): lock, invoke every item, clear, unlock.\<close>

definition bg_drain ::
  "(bg_call \<Rightarrow> (addr \<rightharpoonup> SSlot) \<Rightarrow> (addr \<rightharpoonup> SSlot)) \<Rightarrow> (SSlot \<Rightarrow> BgWorkItemType \<Rightarrow> bool)
     \<Rightarrow> BgThreadCtx \<Rightarrow> bg_world \<Rightarrow> bg_world result" where
  "bg_drain app chk ctx w =
     (let w1 = w\<lparr>bg_trace := bg_trace w @ [EvLock]\<rparr>
      in if \<not> mt_size (bg_req_list w1) > 0 then Inl (AssertFail 43, w1)
         else
           (case bg_invoke_all app chk ctx (mt_list (bg_req_list w1)) w1 of
              Inl x \<Rightarrow> Inl x
            | Inr w2 \<Rightarrow>
                Inr (w2\<lparr>bg_req_list := locked_clear (bg_req_list w2),
                       bg_trace := bg_trace w2 @ [EvLockedClear, EvUnlock]\<rparr>)))"

text \<open>
  What the other threads have done when the loop comes round again: the value of the kill
  switch that the loop condition reads, the items pushed before the loop reads the size,
  and the items pushed after that and before the loop takes the lock.
\<close>

record env_step =
  kill_switch :: bool
  pushed_before_probe :: "BgWorkItem list"
  pushed_before_lock :: "BgWorkItem list"

definition push_all :: "BgWorkItem list \<Rightarrow> bg_world \<Rightarrow> bg_world" where
  "push_all items w = w\<lparr>bg_req_list := foldl (\<lambda>l x. mt_push x l) (bg_req_list w) items\<rparr>"

text \<open>
  The \<open>while\<close> loop, one iteration for each step of the other threads. When the steps
  run out the thread is still in its loop; when it reads a set kill switch it leaves the
  loop and returns.
\<close>

fun bg_loop ::
  "(bg_call \<Rightarrow> (addr \<rightharpoonup> SSlot) \<Rightarrow> (addr \<rightharpoonup> SSlot)) \<Rightarrow> (SSlot \<Rightarrow> BgWorkItemType \<Rightarrow> bool)
     \<Rightarrow> BgThreadCtx \<Rightarrow> env_step list \<Rightarrow> bg_world \<Rightarrow> bg_world result" where
  "bg_loop app chk ctx [] w = Inr w"
| "bg_loop app chk ctx (e # es) w =
     (if kill_switch e then Inr (w\<lparr>bg_trace := bg_trace w @ [EvBgThreadExit]\<rparr>)
      else
        let w1 = push_all (pushed_before_probe e) w
        in if mt_size (bg_req_list w1) = 0
           then bg_loop app chk ctx es (w1\<lparr>bg_trace := bg_trace w1 @ [EvUsleep 1]\<rparr>)
           else
             (case bg_drain app chk ctx (push_all (pushed_before_lock e) w1) of
                Inl x \<Rightarrow> Inl x
              | Inr w2 \<Rightarrow> bg_loop app chk ctx es w2))"

text \<open>
  The thread function. The \<open>std::runtime_error\<close> it throws on a mismatch is not caught
  in the function: it leaves the thread's start function, which ends the process.
\<close>

definition bg_thread_func ::
  "(bg_call \<Rightarrow> (addr \<rightharpoonup> SSlot) \<Rightarrow> (addr \<rightharpoonup> SSlot)) \<Rightarrow> (SSlot \<Rightarrow> BgWorkItemType \<Rightarrow> bool)
     \<Rightarrow> BgThreadCtx \<Rightarrow> env_step list \<Rightarrow> bg_world \<Rightarrow> bg_world result" where
  "bg_thread_func app chk bg_thread_ctx steps w =
     (let w1 = tls_registry_init w
      in if bg_thread_index bg_thread_ctx \<noteq> get_tiny_tid w1
         then Inl (RuntimeError
                     (''eRPC Nexus : Background thread ID mismatch. Nexus-assigned thread ''
                        @ ''index is '' @ to_string (bg_thread_index bg_thread_ctx)
                        @ '', but tiny '' @ ''thread ID is '' @ to_string (get_tiny_tid w1)),
                   w1)
         else bg_loop app chk bg_thread_ctx steps w1)"

text \<open>The work items that a sequence of events invokes, in order.\<close>

fun invoked_items :: "bg_event list \<Rightarrow> BgWorkItem list" where
  "invoked_items [] = []"
| "invoked_items (EvInvoke item call # evs) = item # invoked_items evs"
| "invoked_items (e # evs) = invoked_items evs"

text \<open>
  The checks of the loop body (lines 50 to 73) as a condition on a work item and the state
  in which its turn comes: its slot pointer refers to a slot, the assert of line 53, the
  checks of \<open>debug_check_bg_rx_msgbuf\<close> and the assert of line 57 pass; for a request,
  the request type is inside the handler table, its entry is registered, the item's Rpc
  pointer is not null, and the handler leaves the slot in place.
\<close>

definition bg_checks_pass ::
  "(bg_call \<Rightarrow> (addr \<rightharpoonup> SSlot) \<Rightarrow> (addr \<rightharpoonup> SSlot)) \<Rightarrow> (SSlot \<Rightarrow> BgWorkItemType \<Rightarrow> bool)
     \<Rightarrow> BgThreadCtx \<Rightarrow> BgWorkItem \<Rightarrow> bg_world \<Rightarrow> bool" where
  "bg_checks_pass app debug_check_bg_rx_msgbuf bg_thread_ctx bg_work_item w =
     (case wi_sslot bg_work_item of
        None \<Rightarrow> False
      | Some a \<Rightarrow>
          (case sslots w a of
             None \<Rightarrow> False
           | Some sl \<Rightarrow>
               wi_context bg_work_item \<noteq> None \<and> sslot_session sl \<noteq> None
               \<and> debug_check_bg_rx_msgbuf sl (wi_type bg_work_item)
               \<and> tx_msgbuf sl = None
               \<and> (if wi_type bg_work_item = kReq then
                     unat (req_type (rx_msgbuf sl)) < length (ctx_req_func_arr bg_thread_ctx)
                     \<and> (case req_func (ctx_req_func_arr bg_thread_ctx
                                         ! unat (req_type (rx_msgbuf sl))) of
                          None \<Rightarrow> False
                        | Some f \<Rightarrow>
                            wi_rpc bg_work_item \<noteq> None
                            \<and> app (ReqFuncCall f a (wi_context bg_work_item)) (sslots w) a \<noteq> None)
                   else True)))"

text \<open>
  Every item of a list passes the checks when its turn comes: the first in the given
  state, each later one in the state that the items before it have left.
\<close>

fun bg_all_pass ::
  "(bg_call \<Rightarrow> (addr \<rightharpoonup> SSlot) \<Rightarrow> (addr \<rightharpoonup> SSlot)) \<Rightarrow> (SSlot \<Rightarrow> BgWorkItemType \<Rightarrow> bool)
     \<Rightarrow> BgThreadCtx \<Rightarrow> BgWorkItem list \<Rightarrow> bg_world \<Rightarrow> bool" where
  "bg_all_pass app chk ctx [] w = True"
| "bg_all_pass app chk ctx (item # rest) w =
     (bg_checks_pass app chk ctx item w
      \<and> bg_all_pass app chk ctx rest (outcome_world (bg_invoke app chk ctx item w)))"

section \<open>Example states\<close>

text \<open>
  Concrete endpoints, sessions and Rpc states on which the theorems below are exercised:
  a client Rpc (id 3 on \<open>client-host\<close>) with one session that waits for its disconnect
  response, and a server Rpc (id 7 on \<open>server-host\<close>) holding the server end of that
  session in slot 1 of its session vector.
\<close>

definition ex_client_ep :: SessionEndpoint where
  "ex_client_ep = \<lparr>hostname = ''client-host'', ep_rpc_id = 3, session_num = 0, routing_info = [1, 2]\<rparr>"

definition ex_server_ep :: SessionEndpoint where
  "ex_server_ep = \<lparr>hostname = ''server-host'', ep_rpc_id = 7, session_num = 1, routing_info = [3, 4]\<rparr>"

definition ex_null_msgbuf :: MsgBuffer where
  "ex_null_msgbuf = \<lparr>buf = None, buffer_buf = None, num_pkts = 0, pkts_queued = 0, req_type = 0\<rparr>"

definition ex_pre_resp :: "addr \<Rightarrow> MsgBuffer" where
  "ex_pre_resp a = \<lparr>buf = Some a, buffer_buf = Some a, num_pkts = 1, pkts_queued = 0, req_type = 0\<rparr>"

definition ex_sslot :: "addr \<Rightarrow> addr \<Rightarrow> SSlot" where
  "ex_sslot s a = \<lparr>sslot_session = Some s, rx_msgbuf = ex_null_msgbuf, tx_msgbuf = None,
     pre_resp_msgbuf = ex_pre_resp a, cont_func = 0, tag = 0\<rparr>"

definition ex_client_session :: Session where
  "ex_client_session = \<lparr>role = kClient, state = kDisconnectInProgress,
     client = ex_client_ep, server = ex_server_ep,
     sslot_arr = [ex_sslot 100 500, ex_sslot 100 501],
     local_session_num = 0, sm_callbacks_disabled = False\<rparr>"

definition ex_server_session :: Session where
  "ex_server_session = \<lparr>role = kServer, state = SessionState.kConnected,
     client = ex_client_ep, server = ex_server_ep,
     sslot_arr = [ex_sslot 200 600, ex_sslot 200 601],
     local_session_num = 1, sm_callbacks_disabled = False\<rparr>"

definition ex_client_nexus :: Nexus where
  "ex_client_nexus = \<lparr>nx_hostname = ''client-host'', udp_config = 31850, num_bg_threads = 0,
     nx_req_func_arr = [], reg_hooks = [3], nx_bg_req_lists = []\<rparr>"

definition ex_server_nexus :: Nexus where
  "ex_server_nexus = \<lparr>nx_hostname = ''server-host'', udp_config = 31850, num_bg_threads = 0,
     nx_req_func_arr = [], reg_hooks = [7], nx_bg_req_lists = []\<rparr>"

definition ex_disconnect_req :: SessionMgmtPkt where
  "ex_disconnect_req = \<lparr>pkt_type = kDisconnectReq, err_type = kNoError,
     pkt_client = ex_client_ep, pkt_server = ex_server_ep\<rparr>"

definition ex_disconnect_resp :: SessionMgmtPkt where
  "ex_disconnect_resp = \<lparr>pkt_type = kDisconnectResp, err_type = kNoError,
     pkt_client = ex_client_ep, pkt_server = ex_server_ep\<rparr>"

definition ex_foreign_resp :: SessionMgmtPkt where
  "ex_foreign_resp = \<lparr>pkt_type = kDisconnectResp, err_type = kNoError,
     pkt_client = ex_client_ep,
     pkt_server = \<lparr>hostname = ''other-host'', ep_rpc_id = 7, session_num = 1,
                    routing_info = [3, 4]\<rparr>\<rparr>"

definition ex_client_rpc :: world where
  "ex_client_rpc = \<lparr>nexus = ex_client_nexus, app_context = Some 900, rpc_id = 3, sm_handler = 800,
     phy_port = 0, numa_node = 0, creator_os_tid = 41, multi_threaded = False,
     in_event_loop = False, req_func_arr = [],
     nexus_hook = \<lparr>hook_rpc_id = 3, bg_req_list_arr = []\<rparr>, transport = Some (3, 0),
     huge_alloc = Some 0, session_vec = [Some 100], mgmt_retry_queue = [Some 100],
     heap = [100 \<mapsto> ex_client_session], trace = []\<rparr>"

definition ex_client_rpc_done :: world where
  "ex_client_rpc_done = \<lparr>nexus = ex_client_nexus, app_context = Some 900, rpc_id = 3, sm_handler = 800,
     phy_port = 0, numa_node = 0, creator_os_tid = 41, multi_threaded = False,
     in_event_loop = False, req_func_arr = [],
     nexus_hook = \<lparr>hook_rpc_id = 3, bg_req_list_arr = []\<rparr>,
     transport = Some (3, 0), huge_alloc = Some 0, session_vec = [None],
     mgmt_retry_queue = [], heap = Map.empty, trace = []\<rparr>"

definition ex_server_rpc :: world where
  "ex_server_rpc = \<lparr>nexus = ex_server_nexus, app_context = Some 901, rpc_id = 7, sm_handler = 800,
     phy_port = 0, numa_node = 0, creator_os_tid = 42, multi_threaded = False,
     in_event_loop = False, req_func_arr = [],
     nexus_hook = \<lparr>hook_rpc_id = 7, bg_req_list_arr = []\<rparr>, transport = Some (7, 0),
     huge_alloc = Some 0, session_vec = [None, Some 200], mgmt_retry_queue = [],
     heap = [200 \<mapsto> ex_server_session], trace = []\<rparr>"

definition ex_client_snap :: Rpc where
  "ex_client_snap = \<lparr>nexus = ex_client_nexus, app_context = Some 900, rpc_id = 3, sm_handler = 800,
     phy_port = 0, numa_node = 0, creator_os_tid = 41, multi_threaded = False,
     in_event_loop = False, req_func_arr = [],
     nexus_hook = \<lparr>hook_rpc_id = 3, bg_req_list_arr = []\<rparr>,
     transport = Some (3, 0), huge_alloc = Some 0, session_vec = [Some 100],
     mgmt_retry_queue = [],
     heap = [100 \<mapsto> ex_client_session\<lparr>state := SessionState.kDisconnected\<rparr>]\<rparr>"

definition ex_client_rpc_after :: world where
  "ex_client_rpc_after = \<lparr>nexus = ex_client_nexus, app_context = Some 900, rpc_id = 3, sm_handler = 800,
     phy_port = 0, numa_node = 0, creator_os_tid = 41, multi_threaded = False,
     in_event_loop = False, req_func_arr = [],
     nexus_hook = \<lparr>hook_rpc_id = 3, bg_req_list_arr = []\<rparr>,
     transport = Some (3, 0), huge_alloc = Some 0, session_vec = [None],
     mgmt_retry_queue = [], heap = Map.empty,
     trace = [EvSessionMgmtHandler 0 SessionMgmtEventType.kDisconnected kNoError (Some 900)
                ex_client_snap,
              EvFreeMsgBuffer (ex_pre_resp 500), EvFreeMsgBuffer (ex_pre_resp 501)]\<rparr>"

definition ex_server_rpc_after :: world where
  "ex_server_rpc_after = \<lparr>nexus = ex_server_nexus, app_context = Some 901, rpc_id = 7, sm_handler = 800,
     phy_port = 0, numa_node = 0, creator_os_tid = 42, multi_threaded = False,
     in_event_loop = False, req_func_arr = [],
     nexus_hook = \<lparr>hook_rpc_id = 7, bg_req_list_arr = []\<rparr>,
     transport = Some (7, 0), huge_alloc = Some 0, session_vec = [None, None],
     mgmt_retry_queue = [], heap = Map.empty,
     trace = [EvSendRespMut ex_disconnect_req kNoError 31850,
              EvFreeMsgBuffer (ex_pre_resp 600), EvFreeMsgBuffer (ex_pre_resp 601)]\<rparr>"

text \<open>
  A background thread with index 2 whose list holds a request for slot 10 and a
  continuation for slot 11. The application's request handler leaves the slots alone;
  its continuation releases the response, clearing the slot's rx buffer.
\<close>

definition ex_rx_msgbuf :: "addr \<Rightarrow> MsgBuffer" where
  "ex_rx_msgbuf a = \<lparr>buf = Some a, buffer_buf = Some a, num_pkts = 1, pkts_queued = 0, req_type = 1\<rparr>"

definition ex_req_sslot :: SSlot where
  "ex_req_sslot = \<lparr>sslot_session = Some 200, rx_msgbuf = ex_rx_msgbuf 610, tx_msgbuf = None,
     pre_resp_msgbuf = ex_pre_resp 600, cont_func = 0, tag = 0\<rparr>"

definition ex_cont_sslot :: SSlot where
  "ex_cont_sslot = \<lparr>sslot_session = Some 100, rx_msgbuf = ex_rx_msgbuf 510, tx_msgbuf = None,
     pre_resp_msgbuf = ex_pre_resp 500, cont_func = 710, tag = 55\<rparr>"

definition ex_req_item :: BgWorkItem where
  "ex_req_item = \<lparr>wi_type = kReq, wi_rpc_id = 7, wi_rpc = Some 1000, wi_context = Some 901,
     wi_sslot = Some 10\<rparr>"

definition ex_cont_item :: BgWorkItem where
  "ex_cont_item = \<lparr>wi_type = kResp, wi_rpc_id = 3, wi_rpc = Some 1001, wi_context = Some 900,
     wi_sslot = Some 11\<rparr>"

definition ex_bg_ctx :: BgThreadCtx where
  "ex_bg_ctx = \<lparr>bg_thread_index = 2,
     ctx_req_func_arr = [\<lparr>req_func = None, run_in_background = False\<rparr>,
                         \<lparr>req_func = Some 700, run_in_background = True\<rparr>]\<rparr>"

definition ex_app :: "bg_call \<Rightarrow> (addr \<rightharpoonup> SSlot) \<Rightarrow> (addr \<rightharpoonup> SSlot)" where
  "ex_app call st =
     (case call of
        ReqFuncCall f a c \<Rightarrow> st
      | ContFuncCall f a c t \<Rightarrow>
          (case st a of
             None \<Rightarrow> st
           | Some sl \<Rightarrow> st(a \<mapsto> sl\<lparr>rx_msgbuf := ex_null_msgbuf\<rparr>)))"

definition ex_chk :: "SSlot \<Rightarrow> BgWorkItemType \<Rightarrow> bool" where
  "ex_chk sl t = (buf (rx_msgbuf sl) \<noteq> None)"

definition ex_bg_world :: bg_world where
  "ex_bg_world = \<lparr>cur_etid = 2, tiny_tid = 0,
     bg_req_list = \<lparr>mt_list = [ex_req_item, ex_cont_item], mt_size = 2\<rparr>,
     sslots = [10 \<mapsto> ex_req_sslot, 11 \<mapsto> ex_cont_sslot], bg_trace = []\<rparr>"

definition ex_bg_slots_after :: "addr \<rightharpoonup> SSlot" where
  "ex_bg_slots_after =
     [10 \<mapsto> ex_req_sslot\<lparr>rx_msgbuf := (ex_rx_msgbuf 610)\<lparr>buf := None, buffer_buf := None\<rparr>\<rparr>,
      11 \<mapsto> ex_cont_sslot\<lparr>rx_msgbuf := ex_null_msgbuf\<rparr>]"

definition ex_bg_drain_events :: "bg_event list" where
  "ex_bg_drain_events =
     [EvLock,
      EvInvoke ex_req_item (ReqFuncCall 700 10 (Some 901)), EvBuryRxMsgbuf 1000 10,
      EvInvoke ex_cont_item (ContFuncCall 710 11 (Some 900) 55),
      EvLockedClear, EvUnlock]"

definition ex_steps :: "env_step list" where
  "ex_steps = [\<lparr>kill_switch = False, pushed_before_probe = [], pushed_before_lock = []\<rparr>,
               \<lparr>kill_switch = False, pushed_before_probe = [], pushed_before_lock = []\<rparr>,
               \<lparr>kill_switch = True, pushed_before_probe = [], pushed_before_lock = []\<rparr>]"

section \<open>Theorems about the disconnect handlers\<close>

lemma free_session_resources_trace:
  "free_session_resources ss w =
     w\<lparr>trace := trace w @ map (\<lambda>sslot. EvFreeMsgBuffer (pre_resp_msgbuf sslot)) ss\<rparr>"
  by (induction ss arbitrary: w) (simp_all add: free_msg_buffer_def)

lemma bury_session_st_ok:
  assumes "in_creator tid w" and "heap w a = Some s"
    and "is_client s \<longrightarrow> Some a \<notin> set (mgmt_retry_queue w)"
    and "unat (local_session_num s) < length (session_vec w)"
  shows "bury_session_st tid (Some a) w =
     Inr (w\<lparr>session_vec := (session_vec w)[unat (local_session_num s) := None],
            heap := (heap w)(a := None),
            trace := trace w @ map (\<lambda>sslot. EvFreeMsgBuffer (pre_resp_msgbuf sslot)) (sslot_arr s)\<rparr>)"
  using assms
  by (auto simp add: bury_session_st_def free_session_resources_trace
      mgmt_retryq_contains_st_def Let_def)

lemma check_sslots_sent_None:
  "check_sslots_sent ss = None \<longleftrightarrow>
     (\<forall>sslot \<in> set ss. buf (rx_msgbuf sslot) = None \<and> buffer_buf (rx_msgbuf sslot) = None
        \<and> (\<forall>m. tx_msgbuf sslot = Some m \<longrightarrow> pkts_queued m = num_pkts m))"
  by (induction ss) (auto split: option.splits)

lemma handle_disconnect_req_duplicate:
  assumes "in_creator tid w" and "pkt_type p = kDisconnectReq"
    and "ep_rpc_id (pkt_server p) = rpc_id w"
    and "hostname (pkt_server p) = nx_hostname (nexus w)"
    and "unat (session_num (pkt_server p)) < length (session_vec w)"
    and "session_vec w ! unat (session_num (pkt_server p)) = None"
  shows "handle_disconnect_req_st tid (Some p) w
     = Inr (w\<lparr>trace := trace w @ [EvSendRespMut p kNoError (udp_config (nexus w))]\<rparr>)"
  using assms by (simp add: handle_disconnect_req_st_def send_resp_mut_def)

lemma replay_duplicate:
  assumes "in_creator tid w" and "pkt_type p = kDisconnectReq"
    and "ep_rpc_id (pkt_server p) = rpc_id w"
    and "hostname (pkt_server p) = nx_hostname (nexus w)"
    and "unat (session_num (pkt_server p)) < length (session_vec w)"
    and "session_vec w ! unat (session_num (pkt_server p)) = None"
  shows "replay_disconnect_req k tid p w
     = Inr (w\<lparr>trace := trace w @ replicate k (EvSendRespMut p kNoError (udp_config (nexus w)))\<rparr>)"
  using assms
proof (induction k arbitrary: w)
  case 0
  then show ?case by simp
next
  case (Suc k)
  let ?w' = "w\<lparr>trace := trace w @ [EvSendRespMut p kNoError (udp_config (nexus w))]\<rparr>"
  have h: "handle_disconnect_req_st tid (Some p) w = Inr ?w'"
    using Suc.prems by (rule handle_disconnect_req_duplicate)
  have "replay_disconnect_req k tid p ?w'
     = Inr (?w'\<lparr>trace := trace ?w' @ replicate k (EvSendRespMut p kNoError (udp_config (nexus ?w')))\<rparr>)"
    using Suc.prems by (intro Suc.IH) (simp_all add: in_creator_def)
  then show ?case using h by (simp add: replicate_append_same)
qed

lemma handle_disconnect_req_response:
  assumes "handle_disconnect_req_st tid (Some p) w0 = Inr w1"
  shows "\<exists>bufs. trace w1 =
     trace w0 @ EvSendRespMut p kNoError (udp_config (nexus w0)) # map EvFreeMsgBuffer bufs"
proof (cases "session_vec w0 ! unat (session_num (pkt_server p))")
  case None
  then have "w1 = send_resp_mut p kNoError (udp_config (nexus w0)) w0"
    using assms by (simp add: handle_disconnect_req_st_def Let_def split: if_splits)
  then have "trace w1 =
     trace w0 @ EvSendRespMut p kNoError (udp_config (nexus w0)) # map EvFreeMsgBuffer []"
    by (simp add: send_resp_mut_def)
  then show ?thesis by blast
next
  case (Some a)
  then obtain s where s: "heap w0 a = Some s"
    and b: "bury_session_st tid (Some a) (send_resp_mut p kNoError (udp_config (nexus w0)) w0)
              = Inr w1"
    using assms
    by (auto simp add: handle_disconnect_req_st_def Let_def split: if_splits option.splits)
  from b s have "trace w1 =
     trace w0 @ EvSendRespMut p kNoError (udp_config (nexus w0))
       # map EvFreeMsgBuffer (map pre_resp_msgbuf (sslot_arr s))"
    by (auto simp add: bury_session_st_def free_session_resources_trace send_resp_mut_def
        Let_def comp_def split: if_splits)
  then show ?thesis by blast
qed

text \<open>
  C1, as stated, at a packet whose server endpoint is not the session's. The client
  session in slot 0 is in state \<open>kDisconnectInProgress\<close> and in the management retry
  queue, and the packet is a disconnect response for client session 0 with \<open>err_type\<close>
  \<open>kNoError\<close>; its server endpoint names another host. The handler removes the
  session from the retry queue and then stops at the assert of line 109
  (\<open>session->server == sm_pkt->server\<close>): the session is still in its slot, still in
  state \<open>kDisconnectInProgress\<close>, and no callback was invoked.
\<close>

theorem handle_disconnect_resp_foreign_endpoint:
  "session_vec ex_client_rpc ! unat (session_num (pkt_client ex_foreign_resp)) = Some 100
   \<and> heap ex_client_rpc 100 = Some ex_client_session
   \<and> state ex_client_session = kDisconnectInProgress
   \<and> Some 100 \<in> set (mgmt_retry_queue ex_client_rpc)
   \<and> err_type ex_foreign_resp = kNoError
   \<and> handle_disconnect_resp_st (\<lambda>e. True) 41 (Some ex_foreign_resp) ex_client_rpc
       = Inl (AssertFail 109, ex_client_rpc\<lparr>mgmt_retry_queue := []\<rparr>)"
  by (simp add: handle_disconnect_resp_st_def in_creator_def mgmt_retryq_contains_st_def
      mgmt_retryq_remove_st_def ex_foreign_resp_def ex_client_rpc_def ex_client_session_def
      ex_client_ep_def ex_server_ep_def)

text \<open>
  C1, amended: the packet's endpoints are required to be the session's. A disconnect
  response whose client session number maps to a non-empty slot, holding session \<open>s\<close>
  at address \<open>a\<close>. The hypotheses are the asserts the handler makes before it looks at
  the session, and that the slot points to a session object. First conjunct: if the session is not in state \<open>kDisconnectInProgress\<close>,
  or is not in the management retry queue, or the packet's server or client endpoint is
  not the session's, or the packet's \<open>err_type\<close> is not \<open>kNoError\<close>, an assert fails;
  until then no callback was invoked, and the session vector and the session objects are
  as before. Second conjunct: if all of these requirements hold, and the session's
  \<open>local_session_num\<close> is the slot it is stored in, the handler returns; the session
  is gone from the retry queue, the user callback was invoked with the event
  \<open>kDisconnected\<close> exactly when \<open>sm_callbacks_disabled\<close> is false, in a state in
  which the session is marked \<open>kDisconnected\<close>, and after that the session was buried:
  the preallocated response buffers were freed, the slot is empty and the session object
  is deleted.
\<close>

theorem handle_disconnect_resp_first_response:
  assumes "in_creator tid w"
    and "pkt_type p = kDisconnectResp"
    and "session_mgmt_err_type_is_valid (err_type p)"
    and "unat (session_num (pkt_client p)) < length (session_vec w)"
    and "session_vec w ! unat (session_num (pkt_client p)) = Some a"
    and "heap w a = Some s"
  shows
    "(state s \<noteq> kDisconnectInProgress \<or> Some a \<notin> set (mgmt_retry_queue w)
        \<or> server s \<noteq> pkt_server p \<or> client s \<noteq> pkt_client p
        \<or> err_type p \<noteq> kNoError \<longrightarrow>
      (\<exists>l w'. handle_disconnect_resp_st session_mgmt_err_type_is_valid tid (Some p) w
                 = Inl (AssertFail l, w')
         \<and> trace w' = trace w \<and> session_vec w' = session_vec w \<and> heap w' = heap w))
     \<and>
     (state s = kDisconnectInProgress \<and> Some a \<in> set (mgmt_retry_queue w)
        \<and> err_type p = kNoError
        \<and> server s = pkt_server p \<and> client s = pkt_client p
        \<and> local_session_num s = session_num (pkt_client p) \<longrightarrow>
      handle_disconnect_resp_st session_mgmt_err_type_is_valid tid (Some p) w =
        Inr (w\<lparr>session_vec := (session_vec w)[unat (session_num (pkt_client p)) := None],
               mgmt_retry_queue := removeAll (Some a) (mgmt_retry_queue w),
               heap := (heap w)(a := None),
               trace := trace w
                 @ (if sm_callbacks_disabled s then []
                    else [EvSessionMgmtHandler (local_session_num s)
                            SessionMgmtEventType.kDisconnected kNoError (app_context w)
                            (Rpc.truncate
                               (w\<lparr>mgmt_retry_queue := removeAll (Some a) (mgmt_retry_queue w),
                                   heap := (heap w)(a \<mapsto> s\<lparr>state := SessionState.kDisconnected\<rparr>)\<rparr>))])
                 @ map (\<lambda>sslot. EvFreeMsgBuffer (pre_resp_msgbuf sslot)) (sslot_arr s)\<rparr>))"
proof (intro conjI impI)
  assume bad: "state s \<noteq> kDisconnectInProgress \<or> Some a \<notin> set (mgmt_retry_queue w)
        \<or> server s \<noteq> pkt_server p \<or> client s \<noteq> pkt_client p
        \<or> err_type p \<noteq> kNoError"
  then show "\<exists>l w'. handle_disconnect_resp_st session_mgmt_err_type_is_valid tid (Some p) w
                 = Inl (AssertFail l, w')
         \<and> trace w' = trace w \<and> session_vec w' = session_vec w \<and> heap w' = heap w"
    using assms
    by (auto simp add: handle_disconnect_resp_st_def mgmt_retryq_contains_st_def
        mgmt_retryq_remove_st_def Let_def)
next
  assume ok: "state s = kDisconnectInProgress \<and> Some a \<in> set (mgmt_retry_queue w)
        \<and> err_type p = kNoError
        \<and> server s = pkt_server p \<and> client s = pkt_client p
        \<and> local_session_num s = session_num (pkt_client p)"
  let ?w1 = "mgmt_retryq_remove_st (Some a) w"
  let ?w2 = "?w1\<lparr>heap := (heap ?w1)(a \<mapsto> s\<lparr>state := SessionState.kDisconnected\<rparr>)\<rparr>"
  let ?w3 = "if \<not> sm_callbacks_disabled s
             then session_mgmt_handler (local_session_num s)
                    SessionMgmtEventType.kDisconnected kNoError (app_context ?w2) ?w2
             else ?w2"
  have step: "handle_disconnect_resp_st session_mgmt_err_type_is_valid tid (Some p) w
      = bury_session_st tid (Some a) ?w3"
    using assms ok
    by (simp add: handle_disconnect_resp_st_def mgmt_retryq_contains_st_def Let_def)
  have bury: "bury_session_st tid (Some a) ?w3 =
     Inr (?w3\<lparr>session_vec := (session_vec ?w3)[unat (local_session_num (s\<lparr>state := SessionState.kDisconnected\<rparr>)) := None],
            heap := (heap ?w3)(a := None),
            trace := trace ?w3 @ map (\<lambda>sslot. EvFreeMsgBuffer (pre_resp_msgbuf sslot)) (sslot_arr (s\<lparr>state := SessionState.kDisconnected\<rparr>))\<rparr>)"
    using assms ok
    by (intro bury_session_st_ok)
       (simp_all add: in_creator_def mgmt_retryq_remove_st_def session_mgmt_handler_def)
  show "handle_disconnect_resp_st session_mgmt_err_type_is_valid tid (Some p) w =
        Inr (w\<lparr>session_vec := (session_vec w)[unat (session_num (pkt_client p)) := None],
               mgmt_retry_queue := removeAll (Some a) (mgmt_retry_queue w),
               heap := (heap w)(a := None),
               trace := trace w
                 @ (if sm_callbacks_disabled s then []
                    else [EvSessionMgmtHandler (local_session_num s)
                            SessionMgmtEventType.kDisconnected kNoError (app_context w)
                            (Rpc.truncate
                               (w\<lparr>mgmt_retry_queue := removeAll (Some a) (mgmt_retry_queue w),
                                   heap := (heap w)(a \<mapsto> s\<lparr>state := SessionState.kDisconnected\<rparr>)\<rparr>))])
                 @ map (\<lambda>sslot. EvFreeMsgBuffer (pre_resp_msgbuf sslot)) (sslot_arr s)\<rparr>)"
    unfolding step bury using ok
    by (simp add: mgmt_retryq_remove_st_def session_mgmt_handler_def Rpc.truncate_def)
qed


theorem handle_disconnect_resp_first_response_witness:
  "handle_disconnect_resp_st (\<lambda>e. True) 41 (Some ex_disconnect_resp) ex_client_rpc
     = Inr ex_client_rpc_after"
  using handle_disconnect_resp_first_response
    [of 41 ex_client_rpc ex_disconnect_resp "\<lambda>e. True" 100 ex_client_session]
  by (simp add: ex_client_ep_def ex_server_ep_def ex_null_msgbuf_def ex_pre_resp_def
        ex_sslot_def ex_client_session_def ex_server_session_def ex_client_nexus_def
        ex_server_nexus_def ex_client_rpc_def ex_client_rpc_done_def ex_server_rpc_def
        ex_disconnect_req_def ex_disconnect_resp_def ex_client_snap_def
        ex_client_rpc_after_def ex_server_rpc_after_def in_creator_def Rpc.truncate_def)

text \<open>
  C2. A disconnect request whose server session number maps to an empty slot (the session
  was already disconnected). The hypotheses are the asserts the handler makes before it
  looks at the slot. The handler returns; the state differs from the one before only in
  the record of outgoing calls, which has one more entry: \<open>send_resp_mut\<close> on the
  packet with \<open>kNoError\<close> and the Nexus's UDP configuration. Handling the same request
  \<open>k\<close> times in a row sends that response \<open>k\<close> times and changes nothing else. The
  last conjunct is about the original response: whenever the handler returns for this
  packet, in any state with the same Nexus, with the slot empty or not, the response it
  has sent is this same call, followed by nothing but the freeing of buffers.
\<close>

theorem handle_disconnect_req_duplicate_idempotent:
  assumes "in_creator tid w" and "pkt_type p = kDisconnectReq"
    and "ep_rpc_id (pkt_server p) = rpc_id w"
    and "hostname (pkt_server p) = nx_hostname (nexus w)"
    and "unat (session_num (pkt_server p)) < length (session_vec w)"
    and "session_vec w ! unat (session_num (pkt_server p)) = None"
  shows "handle_disconnect_req_st tid (Some p) w
       = Inr (w\<lparr>trace := trace w @ [EvSendRespMut p kNoError (udp_config (nexus w))]\<rparr>)
     \<and> replay_disconnect_req k tid p w
       = Inr (w\<lparr>trace := trace w
                @ replicate k (EvSendRespMut p kNoError (udp_config (nexus w)))\<rparr>)
     \<and> (\<forall>tid0 w0 w1. nexus w0 = nexus w
           \<and> handle_disconnect_req_st tid0 (Some p) w0 = Inr w1 \<longrightarrow>
           (\<exists>bufs. trace w1 = trace w0 @ EvSendRespMut p kNoError (udp_config (nexus w))
                      # map EvFreeMsgBuffer bufs))"
proof (intro conjI allI impI)
  show "handle_disconnect_req_st tid (Some p) w
       = Inr (w\<lparr>trace := trace w @ [EvSendRespMut p kNoError (udp_config (nexus w))]\<rparr>)"
    using assms by (rule handle_disconnect_req_duplicate)
  show "replay_disconnect_req k tid p w
       = Inr (w\<lparr>trace := trace w
                @ replicate k (EvSendRespMut p kNoError (udp_config (nexus w)))\<rparr>)"
    using assms by (rule replay_duplicate)
next
  fix tid0 w0 w1
  assume h: "nexus w0 = nexus w \<and> handle_disconnect_req_st tid0 (Some p) w0 = Inr w1"
  then show "\<exists>bufs. trace w1 = trace w0 @ EvSendRespMut p kNoError (udp_config (nexus w))
                      # map EvFreeMsgBuffer bufs"
    using handle_disconnect_req_response [of tid0 p w0 w1] by simp
qed

theorem handle_disconnect_req_duplicate_idempotent_witness:
  "handle_disconnect_req_st 42 (Some ex_disconnect_req) ex_server_rpc_after
     = Inr (ex_server_rpc_after\<lparr>trace := trace ex_server_rpc_after
          @ [EvSendRespMut ex_disconnect_req kNoError 31850]\<rparr>)
   \<and> replay_disconnect_req 3 42 ex_disconnect_req ex_server_rpc_after
     = Inr (ex_server_rpc_after\<lparr>trace := trace ex_server_rpc_after
          @ replicate 3 (EvSendRespMut ex_disconnect_req kNoError 31850)\<rparr>)
   \<and> handle_disconnect_req_st 42 (Some ex_disconnect_req) ex_server_rpc
     = Inr ex_server_rpc_after"
proof -
  have orig: "handle_disconnect_req_st 42 (Some ex_disconnect_req) ex_server_rpc
     = Inr ex_server_rpc_after"
    by (simp add: handle_disconnect_req_st_def bury_session_st_def ex_client_ep_def ex_server_ep_def ex_null_msgbuf_def ex_pre_resp_def
        ex_sslot_def ex_client_session_def ex_server_session_def ex_client_nexus_def
        ex_server_nexus_def ex_client_rpc_def ex_client_rpc_done_def ex_server_rpc_def
        ex_disconnect_req_def ex_disconnect_resp_def ex_client_snap_def
        ex_client_rpc_after_def ex_server_rpc_after_def in_creator_def
        is_server_def is_client_def send_resp_mut_def free_msg_buffer_def Let_def)
  have pre: "in_creator 42 ex_server_rpc_after" "pkt_type ex_disconnect_req = kDisconnectReq"
    "ep_rpc_id (pkt_server ex_disconnect_req) = rpc_id ex_server_rpc_after"
    "hostname (pkt_server ex_disconnect_req) = nx_hostname (nexus ex_server_rpc_after)"
    "unat (session_num (pkt_server ex_disconnect_req)) < length (session_vec ex_server_rpc_after)"
    "session_vec ex_server_rpc_after ! unat (session_num (pkt_server ex_disconnect_req)) = None"
    by (simp_all add: ex_client_ep_def ex_server_ep_def ex_null_msgbuf_def ex_pre_resp_def
        ex_sslot_def ex_client_session_def ex_server_session_def ex_client_nexus_def
        ex_server_nexus_def ex_client_rpc_def ex_client_rpc_done_def ex_server_rpc_def
        ex_disconnect_req_def ex_disconnect_resp_def ex_client_snap_def
        ex_client_rpc_after_def ex_server_rpc_after_def in_creator_def)
  have cfg: "udp_config (nexus ex_server_rpc_after) = 31850"
    by (simp add: ex_client_ep_def ex_server_ep_def ex_null_msgbuf_def ex_pre_resp_def
        ex_sslot_def ex_client_session_def ex_server_session_def ex_client_nexus_def
        ex_server_nexus_def ex_client_rpc_def ex_client_rpc_done_def ex_server_rpc_def
        ex_disconnect_req_def ex_disconnect_resp_def ex_client_snap_def
        ex_client_rpc_after_def ex_server_rpc_after_def)
  show ?thesis
    using handle_disconnect_req_duplicate_idempotent [OF pre, of 3] orig
    by (simp add: cfg)
qed

text \<open>
  C3. A disconnect request whose server session number maps to a non-empty slot holding a
  server session \<open>s\<close> (at address \<open>a\<close>) whose endpoints are the packet's and whose
  slots are quiescent (no receive buffer; a transmit buffer, if any, fully queued). The
  first five hypotheses are the asserts the handler makes before it looks at the slot;
  the last says that the session's \<open>local_session_num\<close> is the slot it is stored in.
  The handler returns, and what it did is, in this order: \<open>send_resp_mut\<close> with
  \<open>kNoError\<close>, then \<open>free_msg_buffer\<close> on the preallocated response buffer of every
  slot of the session, in slot order; the session's entry of the session vector is
  empty and the session object is deleted.
\<close>

theorem handle_disconnect_req_buries_session:
  assumes "in_creator tid w" and "pkt_type p = kDisconnectReq"
    and "ep_rpc_id (pkt_server p) = rpc_id w"
    and "hostname (pkt_server p) = nx_hostname (nexus w)"
    and "unat (session_num (pkt_server p)) < length (session_vec w)"
    and "session_vec w ! unat (session_num (pkt_server p)) = Some a"
    and "heap w a = Some s"
    and "is_server s"
    and "server s = pkt_server p" and "client s = pkt_client p"
    and "\<forall>sslot \<in> set (sslot_arr s).
           buf (rx_msgbuf sslot) = None \<and> buffer_buf (rx_msgbuf sslot) = None
           \<and> (\<forall>m. tx_msgbuf sslot = Some m \<longrightarrow> pkts_queued m = num_pkts m)"
    and "local_session_num s = session_num (pkt_server p)"
  shows "handle_disconnect_req_st tid (Some p) w =
     Inr (w\<lparr>session_vec := (session_vec w)[unat (session_num (pkt_server p)) := None],
            heap := (heap w)(a := None),
            trace := trace w @ EvSendRespMut p kNoError (udp_config (nexus w))
              # map (\<lambda>sslot. EvFreeMsgBuffer (pre_resp_msgbuf sslot)) (sslot_arr s)\<rparr>)"
proof -
  let ?w1 = "send_resp_mut p kNoError (udp_config (nexus w)) w"
  have chk: "check_sslots_sent (sslot_arr s) = None"
    using assms(11) by (simp add: check_sslots_sent_None)
  have step: "handle_disconnect_req_st tid (Some p) w = bury_session_st tid (Some a) ?w1"
    using assms chk by (simp add: handle_disconnect_req_st_def)
  have bury: "bury_session_st tid (Some a) ?w1 =
     Inr (?w1\<lparr>session_vec := (session_vec ?w1)[unat (local_session_num s) := None],
            heap := (heap ?w1)(a := None),
            trace := trace ?w1 @ map (\<lambda>sslot. EvFreeMsgBuffer (pre_resp_msgbuf sslot)) (sslot_arr s)\<rparr>)"
    using assms
    by (intro bury_session_st_ok)
       (simp_all add: in_creator_def send_resp_mut_def is_client_def is_server_def)
  show ?thesis unfolding step bury using assms(12) by (simp add: send_resp_mut_def)
qed

theorem handle_disconnect_req_buries_session_witness:
  "handle_disconnect_req_st 42 (Some ex_disconnect_req) ex_server_rpc =
     Inr (ex_server_rpc\<lparr>session_vec := [None, None], heap := Map.empty,
        trace := [EvSendRespMut ex_disconnect_req kNoError 31850,
                  EvFreeMsgBuffer (ex_pre_resp 600), EvFreeMsgBuffer (ex_pre_resp 601)]\<rparr>)"
  using handle_disconnect_req_buries_session
    [of 42 ex_server_rpc ex_disconnect_req 200 ex_server_session]
  by (simp add: ex_client_ep_def ex_server_ep_def ex_null_msgbuf_def ex_pre_resp_def
        ex_sslot_def ex_client_session_def ex_server_session_def ex_client_nexus_def
        ex_server_nexus_def ex_client_rpc_def ex_client_rpc_done_def ex_server_rpc_def
        ex_disconnect_req_def ex_disconnect_resp_def ex_client_snap_def
        ex_client_rpc_after_def ex_server_rpc_after_def in_creator_def is_server_def)

text \<open>
  C9. A disconnect response whose client session number maps to an empty slot of the
  session vector is a duplicate: the handler returns and the whole state is as before
  (the Rpc, the sessions, and the record of outgoing calls, so no callback was invoked).
  The hypotheses are the asserts the handler makes before it looks at the slot.
\<close>

theorem handle_disconnect_resp_duplicate_ignored:
  assumes "in_creator tid w"
    and "pkt_type p = kDisconnectResp"
    and "session_mgmt_err_type_is_valid (err_type p)"
    and "unat (session_num (pkt_client p)) < length (session_vec w)"
    and "session_vec w ! unat (session_num (pkt_client p)) = None"
    and "None \<notin> set (mgmt_retry_queue w)"
  shows "handle_disconnect_resp_st session_mgmt_err_type_is_valid tid (Some p) w = Inr w"
  using assms by (simp add: handle_disconnect_resp_st_def mgmt_retryq_contains_st_def)

theorem handle_disconnect_resp_duplicate_ignored_witness:
  "handle_disconnect_resp_st (\<lambda>e. True) 41 (Some ex_disconnect_resp) ex_client_rpc_done
     = Inr ex_client_rpc_done"
  by (rule handle_disconnect_resp_duplicate_ignored)
    (simp_all add: ex_client_ep_def ex_server_ep_def ex_null_msgbuf_def ex_pre_resp_def
        ex_sslot_def ex_client_session_def ex_server_session_def ex_client_nexus_def
        ex_server_nexus_def ex_client_rpc_def ex_client_rpc_done_def ex_server_rpc_def
        ex_disconnect_req_def ex_disconnect_resp_def ex_client_snap_def
        ex_client_rpc_after_def ex_server_rpc_after_def in_creator_def)

text \<open>
  C10. Take any call of \<open>handle_disconnect_resp_st\<close>, however it ends, and any
  invocation of the user's session-management callback that it made (an entry it added to
  the record of outgoing calls). In the state the callback was invoked in: the packet's
  client session number is a slot of the session vector that still holds the session it
  held when the handler was entered, the session object exists and its state is
  \<open>kDisconnected\<close>, and the session is not in the management retry queue. The
  callback's arguments are the session's \<open>local_session_num\<close>, the event
  \<open>kDisconnected\<close> and \<open>kNoError\<close>.
\<close>

theorem disconnect_callback_moment:
  assumes "EvSessionMgmtHandler n ev err ctx snap \<in> set (drop (length (trace w))
      (trace (outcome_world (handle_disconnect_resp_st valid tid sm_pkt w))))"
  shows "\<exists>p a s. sm_pkt = Some p
      \<and> session_vec w ! unat (session_num (pkt_client p)) = Some a
      \<and> heap snap a = Some s
      \<and> state s = SessionState.kDisconnected
      \<and> Some a \<notin> set (mgmt_retry_queue snap)
      \<and> unat (session_num (pkt_client p)) < length (session_vec snap)
      \<and> session_vec snap ! unat (session_num (pkt_client p)) = Some a
      \<and> n = local_session_num s \<and> ev = SessionMgmtEventType.kDisconnected \<and> err = kNoError"
  using assms
  by (auto simp add: handle_disconnect_resp_st_def bury_session_st_def outcome_world_def
      free_session_resources_trace mgmt_retryq_contains_st_def mgmt_retryq_remove_st_def
      session_mgmt_handler_def Rpc.truncate_def Let_def
      split: if_splits option.splits)

theorem disconnect_callback_moment_witness:
  "\<exists>p a s. Some ex_disconnect_resp = Some p
      \<and> session_vec ex_client_rpc ! unat (session_num (pkt_client p)) = Some a
      \<and> heap ex_client_snap a = Some s
      \<and> state s = SessionState.kDisconnected
      \<and> Some a \<notin> set (mgmt_retry_queue ex_client_snap)
      \<and> unat (session_num (pkt_client p)) < length (session_vec ex_client_snap)
      \<and> session_vec ex_client_snap ! unat (session_num (pkt_client p)) = Some a
      \<and> (0 :: 16 word) = local_session_num s
      \<and> SessionMgmtEventType.kDisconnected = SessionMgmtEventType.kDisconnected
      \<and> kNoError = kNoError"
proof (rule disconnect_callback_moment
    [of 0 SessionMgmtEventType.kDisconnected kNoError "Some 900" ex_client_snap
        ex_client_rpc "\<lambda>e. True" 41 "Some ex_disconnect_resp"])
  have "handle_disconnect_resp_st (\<lambda>e. True) 41 (Some ex_disconnect_resp) ex_client_rpc
     = Inr ex_client_rpc_after"
    by (simp add: handle_disconnect_resp_st_def bury_session_st_def ex_client_ep_def ex_server_ep_def ex_null_msgbuf_def ex_pre_resp_def
        ex_sslot_def ex_client_session_def ex_server_session_def ex_client_nexus_def
        ex_server_nexus_def ex_client_rpc_def ex_client_rpc_done_def ex_server_rpc_def
        ex_disconnect_req_def ex_disconnect_resp_def ex_client_snap_def
        ex_client_rpc_after_def ex_server_rpc_after_def in_creator_def
        is_client_def mgmt_retryq_contains_st_def mgmt_retryq_remove_st_def
        session_mgmt_handler_def free_msg_buffer_def Rpc.truncate_def Let_def)
  then show "EvSessionMgmtHandler 0 SessionMgmtEventType.kDisconnected kNoError (Some 900)
      ex_client_snap
    \<in> set (drop (length (trace ex_client_rpc))
        (trace (outcome_world
          (handle_disconnect_resp_st (\<lambda>e. True) 41 (Some ex_disconnect_resp) ex_client_rpc))))"
    by (simp add: outcome_world_def ex_client_rpc_after_def ex_client_rpc_def)
qed

section \<open>Theorems about construction and destruction\<close>

text \<open>
  With a Nexus to point to, the constructor's checks are taken in the order of the
  source, each with its exception, and a transport is allocated only after all of them
  have passed.
\<close>

lemma Rpc_ctor_checks:
  assumes "Rpc_ctor P N H ttr uid tid (Some nx) c i h port numa = r"
  shows "(uid \<noteq> 0 \<longrightarrow> r = Inl (RuntimeError ''eRPC Rpc: You need to be root to use eRPC'', []))
   \<and> (uid = 0 \<and> (i = kInvalidRpcId \<or> rpc_id_exists nx i) \<longrightarrow>
        r = Inl (InvalidArgument ''eRPC Rpc: Invalid rpc_id'', []))
   \<and> (uid = 0 \<and> \<not> (i = kInvalidRpcId \<or> rpc_id_exists nx i) \<and> unat port \<ge> P \<longrightarrow>
        r = Inl (InvalidArgument ''eRPC Rpc: Invalid physical port'', []))
   \<and> (uid = 0 \<and> \<not> (i = kInvalidRpcId \<or> rpc_id_exists nx i) \<and> unat port < P \<and> numa \<ge> N \<longrightarrow>
        r = Inl (InvalidArgument ''eRPC Rpc: Invalid NUMA node'', []))
   \<and> ((\<exists>e evs. r = Inl (e, evs) \<and> evs \<noteq> []) \<or> (\<exists>w. r = Inr w) \<longrightarrow>
        uid = 0 \<and> i \<noteq> kInvalidRpcId \<and> \<not> rpc_id_exists nx i \<and> unat port < P \<and> numa < N)"
  using assms
  by (auto simp add: Rpc_ctor_def Let_def split: if_splits option.splits prod.splits)

text \<open>
  C4, at a null \<open>nexus\<close> pointer. Whatever the other arguments are, the constructor
  ends in the member initializers, reading a member through the null pointer: no
  exception is thrown, and the check \<open>nexus == nullptr\<close> of the body, with its
  \<open>std::invalid_argument\<close>, is never reached.
\<close>

theorem Rpc_ctor_null_nexus:
  "Rpc_ctor kMaxPhyPorts kMaxNumaNodes kInitialHugeAllocSize ttr uid tid None context_ptr
     rpc_id_arg session_mgmt_handler_arg phy_port_arg numa_node_arg = Inl (NullDeref, [])"
  by (simp add: Rpc_ctor_def)

text \<open>
  C6. Called from a thread other than the creator, the destructor ends the process with
  status \<open>-1\<close> after the diagnostic ``Cannot destroy from background thread'', and the
  state is as before: the allocator, the transport and the hook registration are
  untouched. Called from the creator thread, and not from inside the event loop when
  \<open>kDatapathChecks\<close> is set, it returns, having deleted the allocator, then the
  transport, and then unregistered the hook.
\<close>

theorem Rpc_dtor_creator_only:
  "(\<not> in_creator tid w \<longrightarrow>
      Rpc_dtor kDatapathChecks tid w =
        Inl (Exit (- 1) (''eRPC Rpc '' @ to_string (unat (rpc_id w))
               @ '': Error. Cannot destroy from background thread.'' @ [CHR 0x0A]), w))
   \<and> (in_creator tid w \<and> \<not> (kDatapathChecks \<and> in_event_loop w) \<longrightarrow>
      Rpc_dtor kDatapathChecks tid w =
        Inr (w\<lparr>huge_alloc := None, transport := None,
               nexus := (nexus w)\<lparr>reg_hooks :=
                 removeAll (hook_rpc_id (nexus_hook w)) (reg_hooks (nexus w))\<rparr>,
               trace := trace w @ [EvDeleteHugeAlloc, EvDeleteTransport,
                                   EvUnregisterHook (hook_rpc_id (nexus_hook w))]\<rparr>))"
  by (auto simp add: Rpc_dtor_def unregister_hook_def)

theorem Rpc_dtor_creator_only_witness:
  "Rpc_dtor True 99 ex_client_rpc =
     Inl (Exit (- 1) (''eRPC Rpc 3: Error. Cannot destroy from background thread.''
            @ [CHR 0x0A]), ex_client_rpc)
   \<and> Rpc_dtor True 41 ex_client_rpc =
     Inr (ex_client_rpc\<lparr>huge_alloc := None, transport := None,
        nexus := ex_client_nexus\<lparr>reg_hooks := []\<rparr>,
        trace := [EvDeleteHugeAlloc, EvDeleteTransport, EvUnregisterHook 3]\<rparr>)"
proof -
  have three: "to_string (unat (rpc_id ex_client_rpc)) = ''3''"
    unfolding ex_client_rpc_def by code_simp
  have a: "\<not> in_creator 99 ex_client_rpc"
    and b: "in_creator 41 ex_client_rpc \<and> \<not> (True \<and> in_event_loop ex_client_rpc)"
    by (simp_all add: in_creator_def ex_client_rpc_def)
  from Rpc_dtor_creator_only [of 99 ex_client_rpc True] a
  have "Rpc_dtor True 99 ex_client_rpc =
     Inl (Exit (- 1) (''eRPC Rpc 3: Error. Cannot destroy from background thread.''
            @ [CHR 0x0A]), ex_client_rpc)"
    by (simp add: three)
  moreover from Rpc_dtor_creator_only [of 41 ex_client_rpc True] b
  have "Rpc_dtor True 41 ex_client_rpc =
     Inr (ex_client_rpc\<lparr>huge_alloc := None, transport := None,
        nexus := ex_client_nexus\<lparr>reg_hooks := []\<rparr>,
        trace := [EvDeleteHugeAlloc, EvDeleteTransport, EvUnregisterHook 3]\<rparr>)"
    by (simp add: ex_client_rpc_def ex_client_nexus_def)
  ultimately show ?thesis by simp
qed

section \<open>Theorems about the background thread\<close>

lemma invoked_items_append:
  "invoked_items (xs @ ys) = invoked_items xs @ invoked_items ys"
  by (induction xs rule: invoked_items.induct) simp_all

lemma bg_invoke_outcome:
  "\<exists>evs. bg_trace (outcome_world (bg_invoke app chk ctx item w)) = bg_trace w @ evs
     \<and> (invoked_items evs = [] \<or> invoked_items evs = [item])
     \<and> (\<forall>w'. bg_invoke app chk ctx item w = Inr w' \<longrightarrow> invoked_items evs = [item])
     \<and> EvLock \<notin> set evs \<and> EvLockedClear \<notin> set evs \<and> EvUnlock \<notin> set evs
     \<and> bg_req_list (outcome_world (bg_invoke app chk ctx item w)) = bg_req_list w"
  by (auto simp add: bg_invoke_def bury_sslot_rx_msgbuf_def outcome_world_def Let_def
      split: option.splits)

lemma bg_invoke_all_outcome:
  "\<exists>evs. bg_trace (outcome_world (bg_invoke_all app chk ctx items w)) = bg_trace w @ evs
     \<and> (\<exists>rest. items = invoked_items evs @ rest)
     \<and> (\<forall>w'. bg_invoke_all app chk ctx items w = Inr w' \<longrightarrow> invoked_items evs = items)
     \<and> EvLock \<notin> set evs \<and> EvLockedClear \<notin> set evs \<and> EvUnlock \<notin> set evs
     \<and> bg_req_list (outcome_world (bg_invoke_all app chk ctx items w)) = bg_req_list w"
proof (induction items arbitrary: w)
  case Nil
  show ?case by (simp add: outcome_world_def)
next
  case (Cons item rest)
  obtain evs where e: "bg_trace (outcome_world (bg_invoke app chk ctx item w)) = bg_trace w @ evs"
     and i: "invoked_items evs = [] \<or> invoked_items evs = [item]"
     and r: "\<forall>w'. bg_invoke app chk ctx item w = Inr w' \<longrightarrow> invoked_items evs = [item]"
     and l: "EvLock \<notin> set evs \<and> EvLockedClear \<notin> set evs \<and> EvUnlock \<notin> set evs"
     and q: "bg_req_list (outcome_world (bg_invoke app chk ctx item w)) = bg_req_list w"
    using bg_invoke_outcome [of app chk ctx item w] by blast
  show ?case
  proof (cases "bg_invoke app chk ctx item w")
    case (Inl x)
    then have same: "bg_invoke_all app chk ctx (item # rest) w = bg_invoke app chk ctx item w"
      by simp
    show ?thesis unfolding same using e i l q Inl by (intro exI [of _ evs]) auto
  next
    case (Inr w1)
    then have same: "bg_invoke_all app chk ctx (item # rest) w = bg_invoke_all app chk ctx rest w1"
      by simp
    from Inr e q r have w1: "bg_trace w1 = bg_trace w @ evs" "bg_req_list w1 = bg_req_list w"
      "invoked_items evs = [item]"
      by (simp_all add: outcome_world_def)
    obtain evs' where e': "bg_trace (outcome_world (bg_invoke_all app chk ctx rest w1)) = bg_trace w1 @ evs'"
      and p': "\<exists>rest'. rest = invoked_items evs' @ rest'"
      and r': "\<forall>w'. bg_invoke_all app chk ctx rest w1 = Inr w' \<longrightarrow> invoked_items evs' = rest"
      and l': "EvLock \<notin> set evs' \<and> EvLockedClear \<notin> set evs' \<and> EvUnlock \<notin> set evs'"
      and q': "bg_req_list (outcome_world (bg_invoke_all app chk ctx rest w1)) = bg_req_list w1"
      using Cons.IH [of w1] by blast
    show ?thesis unfolding same
      using e' p' r' l' q' w1 l
      by (intro exI [of _ "evs @ evs'"]) (auto simp add: invoked_items_append)
  qed
qed

lemma mt_push_all_list:
  "mt_list (foldl (\<lambda>l x. mt_push x l) l0 items) = mt_list l0 @ items"
  by (induction items arbitrary: l0) (simp_all add: mt_push_def)

lemma push_all_order:
  "mt_list (bg_req_list (push_all items w0)) = mt_list (bg_req_list w0) @ items"
  by (simp add: push_all_def mt_push_all_list)

lemma bg_checks_pass_trace:
  "bg_checks_pass app chk ctx item (w\<lparr>bg_trace := t\<rparr>) = bg_checks_pass app chk ctx item w"
  by (simp add: bg_checks_pass_def cong: option.case_cong)

lemma bg_invoke_trace_indep:
  "\<exists>t'. outcome_world (bg_invoke app chk ctx item (w\<lparr>bg_trace := t\<rparr>))
        = (outcome_world (bg_invoke app chk ctx item w))\<lparr>bg_trace := t'\<rparr>"
  by (auto simp add: bg_invoke_def bury_sslot_rx_msgbuf_def outcome_world_def Let_def
      split: option.splits)

lemma bg_all_pass_trace:
  "bg_all_pass app chk ctx items (w\<lparr>bg_trace := t\<rparr>) = bg_all_pass app chk ctx items w"
proof (induction items arbitrary: w t)
  case Nil
  show ?case by simp
next
  case (Cons item rest)
  obtain t' where t': "outcome_world (bg_invoke app chk ctx item (w\<lparr>bg_trace := t\<rparr>))
        = (outcome_world (bg_invoke app chk ctx item w))\<lparr>bg_trace := t'\<rparr>"
    using bg_invoke_trace_indep by blast
  show ?case by (simp add: bg_checks_pass_trace t' Cons.IH)
qed

lemma bg_checks_pass_returns:
  assumes "bg_checks_pass app chk ctx item w"
  shows "\<exists>w1. bg_invoke app chk ctx item w = Inr w1"
  using assms
  by (auto simp add: bg_checks_pass_def bg_invoke_def bury_sslot_rx_msgbuf_def Let_def
      split: option.splits if_splits)

lemma bg_all_pass_returns:
  assumes "bg_all_pass app chk ctx items w"
  shows "\<exists>w'. bg_invoke_all app chk ctx items w = Inr w'"
  using assms
proof (induction items arbitrary: w)
  case Nil
  show ?case by simp
next
  case (Cons item rest)
  then obtain w1 where w1: "bg_invoke app chk ctx item w = Inr w1"
    using bg_checks_pass_returns [of app chk ctx item w] by auto
  with Cons.prems have "bg_all_pass app chk ctx rest w1"
    by (simp add: outcome_world_def)
  then obtain w' where "bg_invoke_all app chk ctx rest w1 = Inr w'"
    using Cons.IH by blast
  with w1 show ?case by simp
qed

lemma bg_drain_returns:
  assumes "0 < mt_size (bg_req_list w)"
    and "bg_all_pass app chk ctx (mt_list (bg_req_list w)) w"
  shows "\<exists>w'. bg_drain app chk ctx w = Inr w'"
proof -
  let ?w1 = "w\<lparr>bg_trace := bg_trace w @ [EvLock]\<rparr>"
  have "bg_all_pass app chk ctx (mt_list (bg_req_list w)) ?w1"
    using assms(2) by (simp add: bg_all_pass_trace)
  then obtain w2 where "bg_invoke_all app chk ctx (mt_list (bg_req_list w)) ?w1 = Inr w2"
    using bg_all_pass_returns by blast
  then show ?thesis using assms(1) by (simp add: bg_drain_def Let_def)
qed

text \<open>
  C5. If the tiny thread id that the thread has after \<open>TlsRegistry::init\<close> differs
  from the index the Nexus gave the thread, the thread function throws the
  \<open>std::runtime_error\<close> with the mismatch message, which names both numbers; the state
  it ends in is the one \<open>init\<close> left, in which the list and the slots are untouched
  and nothing was invoked. If the two are equal, the thread function is its loop, run
  from the state after \<open>init\<close>.
\<close>

theorem bg_thread_tiny_tid_check:
  "(get_tiny_tid (tls_registry_init w) \<noteq> bg_thread_index ctx \<longrightarrow>
      bg_thread_func app chk ctx steps w =
        Inl (RuntimeError
               (''eRPC Nexus : Background thread ID mismatch. Nexus-assigned thread index is ''
                  @ to_string (bg_thread_index ctx) @ '', but tiny thread ID is ''
                  @ to_string (get_tiny_tid (tls_registry_init w))),
             tls_registry_init w)
      \<and> bg_trace (tls_registry_init w) = bg_trace w
      \<and> bg_req_list (tls_registry_init w) = bg_req_list w
      \<and> sslots (tls_registry_init w) = sslots w)
   \<and> (get_tiny_tid (tls_registry_init w) = bg_thread_index ctx \<longrightarrow>
      bg_thread_func app chk ctx steps w = bg_loop app chk ctx steps (tls_registry_init w))"
  by (auto simp add: bg_thread_func_def tls_registry_init_def get_tiny_tid_def)

theorem bg_thread_tiny_tid_check_witness:
  "bg_thread_func ex_app ex_chk ex_bg_ctx ex_steps (ex_bg_world\<lparr>cur_etid := 3\<rparr>) =
     Inl (RuntimeError
            (''eRPC Nexus : Background thread ID mismatch. Nexus-assigned thread index is 2''
               @ '', but tiny thread ID is 3''),
          ex_bg_world\<lparr>tiny_tid := 3, cur_etid := 4\<rparr>)
   \<and> bg_thread_func ex_app ex_chk ex_bg_ctx ex_steps ex_bg_world =
     Inr (ex_bg_world\<lparr>cur_etid := 3, tiny_tid := 2,
            bg_req_list := \<lparr>mt_list = [], mt_size = 0\<rparr>,
            sslots := ex_bg_slots_after,
            bg_trace := ex_bg_drain_events @ [EvUsleep 1, EvBgThreadExit]\<rparr>)"
proof -
  have two: "to_string 2 = ''2''" and three: "to_string 3 = ''3''"
    by code_simp+
  have idx: "bg_thread_index ex_bg_ctx = 2" and cur: "cur_etid ex_bg_world = 2"
    by (simp_all add: ex_bg_ctx_def ex_bg_world_def)
  have loop: "bg_loop ex_app ex_chk ex_bg_ctx ex_steps (tls_registry_init ex_bg_world) =
     Inr (ex_bg_world\<lparr>cur_etid := 3, tiny_tid := 2,
            bg_req_list := \<lparr>mt_list = [], mt_size = 0\<rparr>,
            sslots := ex_bg_slots_after,
            bg_trace := ex_bg_drain_events @ [EvUsleep 1, EvBgThreadExit]\<rparr>)"
    by (simp add: tls_registry_init_def push_all_def bg_drain_def bg_invoke_def
        bury_sslot_rx_msgbuf_def locked_clear_def ex_null_msgbuf_def ex_pre_resp_def ex_rx_msgbuf_def ex_req_sslot_def
        ex_cont_sslot_def ex_req_item_def ex_cont_item_def ex_bg_ctx_def ex_app_def
        ex_chk_def ex_bg_world_def ex_bg_slots_after_def ex_bg_drain_events_def
        ex_steps_def Let_def fun_upd_twist)
  from bg_thread_tiny_tid_check
    [where w = "ex_bg_world\<lparr>cur_etid := 3\<rparr>" and ctx = ex_bg_ctx and app = ex_app
       and chk = ex_chk and steps = ex_steps]
  have "bg_thread_func ex_app ex_chk ex_bg_ctx ex_steps (ex_bg_world\<lparr>cur_etid := 3\<rparr>) =
     Inl (RuntimeError
            (''eRPC Nexus : Background thread ID mismatch. Nexus-assigned thread index is 2''
               @ '', but tiny thread ID is 3''),
          ex_bg_world\<lparr>tiny_tid := 3, cur_etid := 4\<rparr>)"
    by (simp add: idx two three tls_registry_init_def get_tiny_tid_def ex_bg_world_def)
  moreover from bg_thread_tiny_tid_check
    [where w = ex_bg_world and ctx = ex_bg_ctx and app = ex_app and chk = ex_chk
       and steps = ex_steps]
  have "bg_thread_func ex_app ex_chk ex_bg_ctx ex_steps ex_bg_world =
     bg_loop ex_app ex_chk ex_bg_ctx ex_steps (tls_registry_init ex_bg_world)"
    by (simp add: idx cur tls_registry_init_def get_tiny_tid_def)
  ultimately show ?thesis by (simp only: loop simp_thms)
qed

text \<open>
  C7. One work item, for the slot \<open>sl\<close> at address \<open>a\<close>, that passes the sanity
  checks of the loop body (the hypotheses). If its kind is request, the handler
  registered for the request type of the slot's rx buffer is called with the slot and the
  item's context, and right after it \<open>bury_sslot_rx_msgbuf\<close> is called on the slot
  through the item's Rpc: the slots are those the handler left, with the rx buffer of
  slot \<open>a\<close> released. If its kind is continuation, the slot's saved continuation is
  called with the slot, the item's context and the saved tag, and nothing else is done:
  the slots are exactly those the continuation left, and no release is recorded.
\<close>

theorem bg_invoke_request_and_continuation:
  assumes "wi_sslot item = Some a" and "sslots w a = Some sl"
    and "wi_context item \<noteq> None" and "sslot_session sl \<noteq> None"
    and "chk sl (wi_type item)" and "tx_msgbuf sl = None"
  shows "(wi_type item = kReq \<and> unat (req_type (rx_msgbuf sl)) < length (ctx_req_func_arr ctx)
          \<and> req_func (ctx_req_func_arr ctx ! unat (req_type (rx_msgbuf sl))) = Some f
          \<and> wi_rpc item = Some r
          \<and> app (ReqFuncCall f a (wi_context item)) (sslots w) a = Some sl' \<longrightarrow>
        bg_invoke app chk ctx item w =
          Inr (w\<lparr>sslots := (app (ReqFuncCall f a (wi_context item)) (sslots w))
                   (a \<mapsto> sl'\<lparr>rx_msgbuf := (rx_msgbuf sl')\<lparr>buf := None, buffer_buf := None\<rparr>\<rparr>),
                 bg_trace := bg_trace w @ [EvInvoke item (ReqFuncCall f a (wi_context item)),
                                           EvBuryRxMsgbuf r a]\<rparr>))
     \<and> (wi_type item = kResp \<longrightarrow>
        bg_invoke app chk ctx item w =
          Inr (w\<lparr>sslots := app (ContFuncCall (cont_func sl) a (wi_context item) (tag sl)) (sslots w),
                 bg_trace := bg_trace w
                   @ [EvInvoke item (ContFuncCall (cont_func sl) a (wi_context item) (tag sl))]\<rparr>))"
  using assms
  by (auto simp add: bg_invoke_def bury_sslot_rx_msgbuf_def Let_def)

theorem bg_invoke_request_and_continuation_witness:
  "bg_invoke ex_app ex_chk ex_bg_ctx ex_req_item ex_bg_world =
     Inr (ex_bg_world\<lparr>sslots := [10 \<mapsto> ex_req_sslot\<lparr>rx_msgbuf :=
                           (ex_rx_msgbuf 610)\<lparr>buf := None, buffer_buf := None\<rparr>\<rparr>,
                         11 \<mapsto> ex_cont_sslot],
            bg_trace := [EvInvoke ex_req_item (ReqFuncCall 700 10 (Some 901)),
                         EvBuryRxMsgbuf 1000 10]\<rparr>)
   \<and> bg_invoke ex_app ex_chk ex_bg_ctx ex_cont_item ex_bg_world =
     Inr (ex_bg_world\<lparr>sslots := [10 \<mapsto> ex_req_sslot,
                         11 \<mapsto> ex_cont_sslot\<lparr>rx_msgbuf := ex_null_msgbuf\<rparr>],
            bg_trace := [EvInvoke ex_cont_item (ContFuncCall 710 11 (Some 900) 55)]\<rparr>)"
proof -
  from bg_invoke_request_and_continuation
    [of ex_req_item 10 ex_bg_world ex_req_sslot ex_chk ex_bg_ctx 700 1000 ex_app ex_req_sslot]
  have "bg_invoke ex_app ex_chk ex_bg_ctx ex_req_item ex_bg_world =
     Inr (ex_bg_world\<lparr>sslots := [10 \<mapsto> ex_req_sslot\<lparr>rx_msgbuf :=
                           (ex_rx_msgbuf 610)\<lparr>buf := None, buffer_buf := None\<rparr>\<rparr>,
                         11 \<mapsto> ex_cont_sslot],
            bg_trace := [EvInvoke ex_req_item (ReqFuncCall 700 10 (Some 901)),
                         EvBuryRxMsgbuf 1000 10]\<rparr>)"
    by (simp add: ex_null_msgbuf_def ex_pre_resp_def ex_rx_msgbuf_def ex_req_sslot_def
        ex_cont_sslot_def ex_req_item_def ex_cont_item_def ex_bg_ctx_def ex_app_def
        ex_chk_def ex_bg_world_def ex_bg_slots_after_def ex_bg_drain_events_def
        ex_steps_def fun_upd_twist)
  moreover from bg_invoke_request_and_continuation
    [of ex_cont_item 11 ex_bg_world ex_cont_sslot ex_chk ex_bg_ctx 700 1000 ex_app ex_cont_sslot]
  have "bg_invoke ex_app ex_chk ex_bg_ctx ex_cont_item ex_bg_world =
     Inr (ex_bg_world\<lparr>sslots := [10 \<mapsto> ex_req_sslot,
                         11 \<mapsto> ex_cont_sslot\<lparr>rx_msgbuf := ex_null_msgbuf\<rparr>],
            bg_trace := [EvInvoke ex_cont_item (ContFuncCall 710 11 (Some 900) 55)]\<rparr>)"
    by (simp add: ex_null_msgbuf_def ex_pre_resp_def ex_rx_msgbuf_def ex_req_sslot_def
        ex_cont_sslot_def ex_req_item_def ex_cont_item_def ex_bg_ctx_def ex_app_def
        ex_chk_def ex_bg_world_def ex_bg_slots_after_def ex_bg_drain_events_def
        ex_steps_def)
  ultimately show ?thesis by simp
qed

text \<open>
  C8. Pushing items onto the list appends them in the order of the pushes, so list order
  is push order (first conjunct). One drain of the list, however it ends (second
  conjunct): what the drain adds to the record starts with taking the lock; the items
  invoked after that are an initial part of the list, in list order, each once. If the
  drain returns, the items invoked are the whole list, each exactly once and in list
  order; the last two things the drain did are \<open>locked_clear\<close> and then \<open>unlock\<close>,
  with no other use of the lock before them; and the list is empty with size 0. The drain
  does return (third conjunct) when the list's size is not 0 and every item passes the
  checks of the loop body when its turn comes: then every item of the list is invoked,
  exactly once and in list order, after the lock is taken and before the list is
  cleared, and the list is cleared before the lock is released.
\<close>

theorem bg_drain_in_push_order:
  "mt_list (bg_req_list (push_all items w0)) = mt_list (bg_req_list w0) @ items
   \<and> (\<exists>evs. bg_trace (outcome_world (bg_drain app chk ctx w)) = bg_trace w @ EvLock # evs
     \<and> (\<exists>rest. mt_list (bg_req_list w) = invoked_items evs @ rest)
     \<and> (\<forall>w'. bg_drain app chk ctx w = Inr w' \<longrightarrow>
          invoked_items evs = mt_list (bg_req_list w)
          \<and> (\<exists>mid. evs = mid @ [EvLockedClear, EvUnlock]
                \<and> EvLock \<notin> set mid \<and> EvLockedClear \<notin> set mid \<and> EvUnlock \<notin> set mid)
          \<and> mt_list (bg_req_list w') = [] \<and> mt_size (bg_req_list w') = 0))
   \<and> (0 < mt_size (bg_req_list w)
        \<and> bg_all_pass app chk ctx (mt_list (bg_req_list w)) w \<longrightarrow>
      (\<exists>w' mid. bg_drain app chk ctx w = Inr w'
         \<and> bg_trace w' = bg_trace w @ EvLock # mid @ [EvLockedClear, EvUnlock]
         \<and> invoked_items mid = mt_list (bg_req_list w)
         \<and> EvLock \<notin> set mid \<and> EvLockedClear \<notin> set mid \<and> EvUnlock \<notin> set mid
         \<and> mt_list (bg_req_list w') = [] \<and> mt_size (bg_req_list w') = 0))"
proof -
  have drain: "\<exists>evs. bg_trace (outcome_world (bg_drain app chk ctx w)) = bg_trace w @ EvLock # evs
     \<and> (\<exists>rest. mt_list (bg_req_list w) = invoked_items evs @ rest)
     \<and> (\<forall>w'. bg_drain app chk ctx w = Inr w' \<longrightarrow>
          invoked_items evs = mt_list (bg_req_list w)
          \<and> (\<exists>mid. evs = mid @ [EvLockedClear, EvUnlock]
                \<and> EvLock \<notin> set mid \<and> EvLockedClear \<notin> set mid \<and> EvUnlock \<notin> set mid)
          \<and> mt_list (bg_req_list w') = [] \<and> mt_size (bg_req_list w') = 0)"
  proof (cases "mt_size (bg_req_list w) > 0")
    case False
    then have d: "bg_drain app chk ctx w = Inl (AssertFail 43, w\<lparr>bg_trace := bg_trace w @ [EvLock]\<rparr>)"
      by (simp add: bg_drain_def Let_def)
    show ?thesis unfolding d by (intro exI [of _ "[]"]) (simp add: outcome_world_def)
  next
    case True
    let ?w1 = "w\<lparr>bg_trace := bg_trace w @ [EvLock]\<rparr>"
    let ?items = "mt_list (bg_req_list w)"
    obtain evs where e: "bg_trace (outcome_world (bg_invoke_all app chk ctx ?items ?w1)) = bg_trace ?w1 @ evs"
        and p: "\<exists>rest. ?items = invoked_items evs @ rest"
        and r: "\<forall>w'. bg_invoke_all app chk ctx ?items ?w1 = Inr w' \<longrightarrow> invoked_items evs = ?items"
        and l: "EvLock \<notin> set evs \<and> EvLockedClear \<notin> set evs \<and> EvUnlock \<notin> set evs"
      using bg_invoke_all_outcome [of app chk ctx ?items ?w1] by blast
    show ?thesis
    proof (cases "bg_invoke_all app chk ctx ?items ?w1")
      case (Inl x)
      then have d: "bg_drain app chk ctx w = Inl x"
        using True by (simp add: bg_drain_def Let_def)
      show ?thesis unfolding d using e p Inl
        by (intro exI [of _ evs]) (simp add: outcome_world_def)
    next
      case (Inr w2)
      then have d: "bg_drain app chk ctx w =
         Inr (w2\<lparr>bg_req_list := locked_clear (bg_req_list w2),
                bg_trace := bg_trace w2 @ [EvLockedClear, EvUnlock]\<rparr>)"
        using True by (simp add: bg_drain_def Let_def)
      from Inr e r have w2: "bg_trace w2 = bg_trace w @ EvLock # evs" "invoked_items evs = ?items"
        by (simp_all add: outcome_world_def)
      show ?thesis unfolding d using w2 l
        by (intro exI [of _ "evs @ [EvLockedClear, EvUnlock]"])
           (simp add: outcome_world_def invoked_items_append locked_clear_def)
    qed
  qed
  have returns: "0 < mt_size (bg_req_list w)
        \<and> bg_all_pass app chk ctx (mt_list (bg_req_list w)) w \<longrightarrow>
      (\<exists>w' mid. bg_drain app chk ctx w = Inr w'
         \<and> bg_trace w' = bg_trace w @ EvLock # mid @ [EvLockedClear, EvUnlock]
         \<and> invoked_items mid = mt_list (bg_req_list w)
         \<and> EvLock \<notin> set mid \<and> EvLockedClear \<notin> set mid \<and> EvUnlock \<notin> set mid
         \<and> mt_list (bg_req_list w') = [] \<and> mt_size (bg_req_list w') = 0)"
  proof
    assume pass: "0 < mt_size (bg_req_list w)
        \<and> bg_all_pass app chk ctx (mt_list (bg_req_list w)) w"
    then obtain w' where ret: "bg_drain app chk ctx w = Inr w'"
      using bg_drain_returns [of w app chk ctx] by blast
    from drain obtain evs where all:
      "bg_trace (outcome_world (bg_drain app chk ctx w)) = bg_trace w @ EvLock # evs
       \<and> (\<exists>rest. mt_list (bg_req_list w) = invoked_items evs @ rest)
       \<and> (\<forall>w'. bg_drain app chk ctx w = Inr w' \<longrightarrow>
            invoked_items evs = mt_list (bg_req_list w)
            \<and> (\<exists>mid. evs = mid @ [EvLockedClear, EvUnlock]
                  \<and> EvLock \<notin> set mid \<and> EvLockedClear \<notin> set mid \<and> EvUnlock \<notin> set mid)
            \<and> mt_list (bg_req_list w') = [] \<and> mt_size (bg_req_list w') = 0)" ..
    note tr = all [THEN conjunct1]
    note full = all [THEN conjunct2, THEN conjunct2, rule_format, OF ret]
    note inv = full [THEN conjunct1] and empty = full [THEN conjunct2, THEN conjunct2]
    from full [THEN conjunct2, THEN conjunct1] obtain mid where midfact:
      "evs = mid @ [EvLockedClear, EvUnlock]
       \<and> EvLock \<notin> set mid \<and> EvLockedClear \<notin> set mid \<and> EvUnlock \<notin> set mid" ..
    note mid = midfact [THEN conjunct1] and nolock = midfact [THEN conjunct2]
    from tr ret mid have "bg_trace w' = bg_trace w @ EvLock # mid @ [EvLockedClear, EvUnlock]"
      by (simp add: outcome_world_def)
    moreover from inv mid have "invoked_items mid = mt_list (bg_req_list w)"
      by (simp add: invoked_items_append)
    ultimately show "\<exists>w' mid. bg_drain app chk ctx w = Inr w'
         \<and> bg_trace w' = bg_trace w @ EvLock # mid @ [EvLockedClear, EvUnlock]
         \<and> invoked_items mid = mt_list (bg_req_list w)
         \<and> EvLock \<notin> set mid \<and> EvLockedClear \<notin> set mid \<and> EvUnlock \<notin> set mid
         \<and> mt_list (bg_req_list w') = [] \<and> mt_size (bg_req_list w') = 0"
      using ret nolock empty by (intro exI [of _ w'] exI [of _ mid]) (simp only: simp_thms)
  qed
  show ?thesis by (intro conjI push_all_order drain returns)
qed

theorem bg_drain_in_push_order_witness:
  "0 < mt_size (bg_req_list ex_bg_world)
   \<and> bg_all_pass ex_app ex_chk ex_bg_ctx (mt_list (bg_req_list ex_bg_world)) ex_bg_world
   \<and> bg_drain ex_app ex_chk ex_bg_ctx ex_bg_world =
     Inr (ex_bg_world\<lparr>bg_req_list := \<lparr>mt_list = [], mt_size = 0\<rparr>,
            sslots := ex_bg_slots_after, bg_trace := ex_bg_drain_events\<rparr>)
   \<and> (\<exists>evs. ex_bg_drain_events = EvLock # evs
         \<and> invoked_items evs = [ex_req_item, ex_cont_item]
         \<and> (\<exists>mid. evs = mid @ [EvLockedClear, EvUnlock]
               \<and> EvLock \<notin> set mid \<and> EvLockedClear \<notin> set mid \<and> EvUnlock \<notin> set mid))"
proof -
  let ?after = "ex_bg_world\<lparr>bg_req_list := \<lparr>mt_list = [], mt_size = 0\<rparr>,
            sslots := ex_bg_slots_after, bg_trace := ex_bg_drain_events\<rparr>"
  let ?drain = "bg_drain ex_app ex_chk ex_bg_ctx ex_bg_world"
  have d: "?drain = Inr ?after"
    by (simp add: bg_drain_def bg_invoke_def bury_sslot_rx_msgbuf_def locked_clear_def
        ex_null_msgbuf_def ex_pre_resp_def ex_rx_msgbuf_def ex_req_sslot_def
        ex_cont_sslot_def ex_req_item_def ex_cont_item_def ex_bg_ctx_def ex_app_def
        ex_chk_def ex_bg_world_def ex_bg_slots_after_def ex_bg_drain_events_def
        Let_def fun_upd_twist)
  have t0: "bg_trace ex_bg_world = []"
    and l0: "mt_list (bg_req_list ex_bg_world) = [ex_req_item, ex_cont_item]"
    and s0: "0 < mt_size (bg_req_list ex_bg_world)"
    by (simp_all add: ex_bg_world_def)
  have p0: "bg_all_pass ex_app ex_chk ex_bg_ctx (mt_list (bg_req_list ex_bg_world)) ex_bg_world"
    by (simp add: bg_checks_pass_def bg_invoke_def bury_sslot_rx_msgbuf_def outcome_world_def
        ex_null_msgbuf_def ex_pre_resp_def ex_rx_msgbuf_def ex_req_sslot_def
        ex_cont_sslot_def ex_req_item_def ex_cont_item_def ex_bg_ctx_def ex_app_def
        ex_chk_def ex_bg_world_def Let_def)
  from s0 p0 have pass: "0 < mt_size (bg_req_list ex_bg_world)
      \<and> bg_all_pass ex_app ex_chk ex_bg_ctx (mt_list (bg_req_list ex_bg_world)) ex_bg_world" ..
  note ret = bg_drain_in_push_order [where app = ex_app and chk = ex_chk and ctx = ex_bg_ctx
      and w = ex_bg_world, THEN conjunct2, THEN conjunct2, THEN mp, OF pass]
  from ret obtain w' where "\<exists>mid. ?drain = Inr w'
         \<and> bg_trace w' = bg_trace ex_bg_world @ EvLock # mid @ [EvLockedClear, EvUnlock]
         \<and> invoked_items mid = mt_list (bg_req_list ex_bg_world)
         \<and> EvLock \<notin> set mid \<and> EvLockedClear \<notin> set mid \<and> EvUnlock \<notin> set mid
         \<and> mt_list (bg_req_list w') = [] \<and> mt_size (bg_req_list w') = 0" ..
  then obtain mid where r: "?drain = Inr w'
         \<and> bg_trace w' = bg_trace ex_bg_world @ EvLock # mid @ [EvLockedClear, EvUnlock]
         \<and> invoked_items mid = mt_list (bg_req_list ex_bg_world)
         \<and> EvLock \<notin> set mid \<and> EvLockedClear \<notin> set mid \<and> EvUnlock \<notin> set mid
         \<and> mt_list (bg_req_list w') = [] \<and> mt_size (bg_req_list w') = 0" ..
  note r1 = r [THEN conjunct1] and r2 = r [THEN conjunct2, THEN conjunct1]
    and r3 = r [THEN conjunct2, THEN conjunct2, THEN conjunct1]
    and r4 = r [THEN conjunct2, THEN conjunct2, THEN conjunct2, THEN conjunct1]
    and r5 = r [THEN conjunct2, THEN conjunct2, THEN conjunct2, THEN conjunct2, THEN conjunct1]
    and r6 = r [THEN conjunct2, THEN conjunct2, THEN conjunct2, THEN conjunct2, THEN conjunct2,
                THEN conjunct1]
  from r1 d have w': "w' = ?after" by (simp only: sum.inject)
  from r2 have e1: "ex_bg_drain_events = EvLock # (mid @ [EvLockedClear, EvUnlock])"
    unfolding w' by (simp add: t0)
  from r3 have e2: "invoked_items (mid @ [EvLockedClear, EvUnlock]) = [ex_req_item, ex_cont_item]"
    by (simp add: invoked_items_append l0)
  from e1 e2 r4 r5 r6 have "\<exists>evs. ex_bg_drain_events = EvLock # evs
         \<and> invoked_items evs = [ex_req_item, ex_cont_item]
         \<and> (\<exists>mid. evs = mid @ [EvLockedClear, EvUnlock]
               \<and> EvLock \<notin> set mid \<and> EvLockedClear \<notin> set mid \<and> EvUnlock \<notin> set mid)"
    by (intro exI [of _ "mid @ [EvLockedClear, EvUnlock]"] conjI exI [of _ mid] refl)
  with s0 p0 d show ?thesis by (simp only: simp_thms)
qed

end
